theory Spec2Isabelle
  imports Complex_Main
begin

section \<open>Numbers and configuration constants\<close>

text \<open>
  JavaScript numbers are modelled as reals: a decimal literal of the source is the
  rational it denotes, \<open>Math.sqrt\<close>, \<open>Math.sin\<close>, \<open>Math.cos\<close>, \<open>Math.acos\<close> and
  \<open>Math.pow\<close> are the real functions, and neither the rounding of double arithmetic
  nor that of a store into a \<open>Float32Array\<close> is modelled. Counts and array indices
  are naturals.
\<close>

definition PARTICLE_COUNT :: nat where
  "PARTICLE_COUNT = 5000"

definition PARTICLE_HEIGHT :: real where
  "PARTICLE_HEIGHT = 25"

definition PARTICLE_RADIUS :: real where
  "PARTICLE_RADIUS = 10"

definition GRAVITY_STRENGTH :: real where
  "GRAVITY_STRENGTH = 0.35"

definition EXPLOSION_STRENGTH :: real where
  "EXPLOSION_STRENGTH = 0.25"

definition DAMPING :: real where
  "DAMPING = 0.90"

definition BROWN_MOTION :: real where
  "BROWN_MOTION = 0.03"

definition FIREWORKS_GRAVITY :: real where
  "FIREWORKS_GRAVITY = 0.015"

definition FIREWORKS_AIR_RESISTANCE :: real where
  "FIREWORKS_AIR_RESISTANCE = 0.97"

definition INDEX_CURLED :: real where
  "INDEX_CURLED = 0.12"

definition MIDDLE_CURLED :: real where
  "MIDDLE_CURLED = 0.12"

definition RING_CURLED :: real where
  "RING_CURLED = 0.12"

definition PINKY_CURLED :: real where
  "PINKY_CURLED = 0.12"

definition THUMB_CURLED :: real where
  "THUMB_CURLED = 0.18"

definition INDEX_EXTENDED :: real where
  "INDEX_EXTENDED = 0.15"

definition MIDDLE_EXTENDED :: real where
  "MIDDLE_EXTENDED = 0.15"

definition RING_EXTENDED :: real where
  "RING_EXTENDED = 0.15"

definition PINKY_EXTENDED :: real where
  "PINKY_EXTENDED = 0.15"

section \<open>Gesture classifier (\<open>calculateFingerStates\<close>)\<close>

record Landmark =
  lm_x :: real
  lm_y :: real
  lm_z :: real

record FingerState =
  wrist :: Landmark
  thumbTip :: Landmark
  indexTip :: Landmark
  middleTip :: Landmark
  ringTip :: Landmark
  pinkyTip :: Landmark
  palmBase :: Landmark
  fingersCurled :: nat
  fingersExtended :: nat
  isFist :: bool
  isOneFinger :: bool
  isTwoFingers :: bool
  isThreeFingers :: bool

text \<open>
  The argument is \<open>None\<close> for a falsy \<open>landmarks\<close> (\<open>null\<close> or \<open>undefined\<close>), and the
  result is \<open>None\<close> where the source returns \<open>null\<close>. The reads \<open>landmarks[k]\<close> are
  all below 21, hence in range after the length check.
\<close>

definition calculateFingerStates :: "Landmark list option \<Rightarrow> FingerState option" where
  "calculateFingerStates landmarks =
     (case landmarks of
        None \<Rightarrow> None
      | Some lms \<Rightarrow>
          if length lms < 21 then None
          else
            let wrist' = lms ! 0;
                thumbTip' = lms ! 4;
                indexTip' = lms ! 8;
                middleTip' = lms ! 12;
                ringTip' = lms ! 16;
                pinkyTip' = lms ! 20;
                palmBase' = lms ! 9;
                indexCurled = (\<bar>lm_y indexTip' - lm_y palmBase'\<bar> < INDEX_CURLED);
                middleCurled = (\<bar>lm_y middleTip' - lm_y palmBase'\<bar> < MIDDLE_CURLED);
                ringCurled = (\<bar>lm_y ringTip' - lm_y palmBase'\<bar> < RING_CURLED);
                pinkyCurled = (\<bar>lm_y pinkyTip' - lm_y palmBase'\<bar> < PINKY_CURLED);
                thumbCurled = (\<bar>lm_y thumbTip' - lm_y palmBase'\<bar> < THUMB_CURLED);
                indexExtended = (\<bar>lm_y indexTip' - lm_y palmBase'\<bar> > INDEX_EXTENDED);
                middleExtended = (\<bar>lm_y middleTip' - lm_y palmBase'\<bar> > MIDDLE_EXTENDED);
                ringExtended = (\<bar>lm_y ringTip' - lm_y palmBase'\<bar> > RING_EXTENDED);
                pinkyExtended = (\<bar>lm_y pinkyTip' - lm_y palmBase'\<bar> > PINKY_EXTENDED);
                fingersCurled' =
                  length (filter (\<lambda>b. b) [indexCurled, middleCurled, ringCurled, pinkyCurled]);
                fingersExtended' =
                  length (filter (\<lambda>b. b)
                    [indexExtended, middleExtended, ringExtended, pinkyExtended]);
                isFist' = (fingersCurled' \<ge> 3 \<and> thumbCurled);
                isOneFinger' =
                  (indexExtended \<and> \<not> middleExtended \<and> \<not> ringExtended \<and> \<not> pinkyExtended);
                isTwoFingers' =
                  (indexExtended \<and> middleExtended \<and> \<not> ringExtended \<and> \<not> pinkyExtended);
                isThreeFingers' =
                  (indexExtended \<and> middleExtended \<and> ringExtended \<and> \<not> pinkyExtended)
            in Some \<lparr> wrist = wrist', thumbTip = thumbTip', indexTip = indexTip',
                      middleTip = middleTip', ringTip = ringTip', pinkyTip = pinkyTip',
                      palmBase = palmBase', fingersCurled = fingersCurled',
                      fingersExtended = fingersExtended', isFist = isFist',
                      isOneFinger = isOneFinger', isTwoFingers = isTwoFingers',
                      isThreeFingers = isThreeFingers' \<rparr>)"

section \<open>Gesture event dispatcher (the \<open>onResults\<close> handler of \<open>useGestureRecognition\<close>)\<close>

text \<open>
  The callbacks the hook receives are modelled as the events the handler emits, in call
  order. \<open>onError\<close> and \<open>onStatusChange\<close> are called by \<open>initCamera\<close> only; they are
  events of the same type so that "no error is surfaced" can be said of a frame.
\<close>

datatype status = LOADING | ACTIVE | ERROR

datatype callback =
    OneFingerGesture
  | TwoFingersGesture
  | ThreeFingersGesture
  | FistGesture real real real
  | NoGesture
  | OnError string
  | StatusChange status

text \<open>The refs of the hook that the handler reads and writes.\<close>

record refs =
  isMounted :: bool
  wasOneFinger :: bool
  wasTwoFingers :: bool
  wasThreeFingers :: bool

text \<open>
  A frame: \<open>results.multiHandLandmarks\<close> is absent (\<open>None\<close>) or a list of hands, each
  hand a landmark list (or a falsy value, \<open>None\<close>).
\<close>

record Results =
  multiHandLandmarks :: "Landmark list option list option"

definition handleGestures :: "refs \<Rightarrow> FingerState \<Rightarrow> refs \<times> callback list" where
  "handleGestures r fingerState =
     (let (r1, e1) =
            (if isOneFinger fingerState \<and> \<not> wasOneFinger r
             then (r\<lparr>wasOneFinger := True\<rparr>, [OneFingerGesture])
             else if \<not> isOneFinger fingerState then (r\<lparr>wasOneFinger := False\<rparr>, [])
             else (r, []));
          (r2, e2) =
            (if isTwoFingers fingerState \<and> \<not> wasTwoFingers r1
             then (r1\<lparr>wasTwoFingers := True\<rparr>, [TwoFingersGesture])
             else if \<not> isTwoFingers fingerState then (r1\<lparr>wasTwoFingers := False\<rparr>, [])
             else (r1, []));
          (r3, e3) =
            (if isThreeFingers fingerState \<and> \<not> wasThreeFingers r2
             then (r2\<lparr>wasThreeFingers := True\<rparr>, [ThreeFingersGesture])
             else if \<not> isThreeFingers fingerState then (r2\<lparr>wasThreeFingers := False\<rparr>, [])
             else (r2, []));
          e4 =
            (if isFist fingerState
             then let strength = real (fingersCurled fingerState) / 4.0
                  in [FistGesture strength (lm_x (palmBase fingerState))
                        (lm_y (palmBase fingerState))]
             else if \<not> isFist fingerState \<and> \<not> isOneFinger fingerState
                     \<and> \<not> isTwoFingers fingerState \<and> \<not> isThreeFingers fingerState
             then [NoGesture]
             else [])
      in (r3, e1 @ e2 @ e3 @ e4))"

definition onResults :: "refs \<Rightarrow> Results \<Rightarrow> refs \<times> callback list" where
  "onResults r results =
     (if \<not> isMounted r then (r, [])
      else
        case multiHandLandmarks results of
          None \<Rightarrow> (r, [NoGesture])
        | Some [] \<Rightarrow> (r, [NoGesture])
        | Some (landmarks # others) \<Rightarrow>
            (case calculateFingerStates landmarks of
               None \<Rightarrow> (r, [])
             | Some fingerState \<Rightarrow> handleGestures r fingerState))"

text \<open>
  A sequence of frames delivered to the handler: the refs after the last frame and, for
  each frame, the callbacks invoked during it.
\<close>

fun processFrames :: "refs \<Rightarrow> Results list \<Rightarrow> refs \<times> callback list list" where
  "processFrames r [] = (r, [])"
| "processFrames r (f # fs) =
     (let (r', es) = onResults r f;
          (r'', ess) = processFrames r' fs
      in (r'', es # ess))"

text \<open>What the handler classifies in a frame: the finger state of the first hand.\<close>

definition classify :: "Results \<Rightarrow> FingerState option" where
  "classify results =
     (case multiHandLandmarks results of
        None \<Rightarrow> None
      | Some [] \<Rightarrow> None
      | Some (landmarks # others) \<Rightarrow> calculateFingerStates landmarks)"

section \<open>Shape generators\<close>

text \<open>
  \<open>Math.random()\<close> is modelled by a stream \<open>rnd\<close> of the values it returns, read at a
  counter that a function drawing from it returns advanced.
\<close>

definition noise3D :: "real \<Rightarrow> real \<Rightarrow> real \<Rightarrow> real" where
  "noise3D a b c =
     (let n = sin (a * 12.9898 + b * 78.233 + c * 37.719) * 43758.5453
      in n - of_int \<lfloor>n\<rfloor>)"

text \<open>
  The body of the loop of \<open>calculateExplodedParticlePositions\<close>, on the array being
  filled (a \<open>Float32Array\<close> starts as zeros, and a store out of range is ignored, as
  list update is).
\<close>

definition explodedParticle :: "nat \<Rightarrow> real list \<Rightarrow> real list" where
  "explodedParticle i positions' =
     (let spread = 60;
          i3 = i * 3;
          noiseX = noise3D (real i) 0 0;
          noiseY = noise3D 0 (real i) 0;
          noiseZ = noise3D 0 0 (real i)
      in positions'[i3 := (noiseX - 0.5) * spread,
                    i3 + 1 := (noiseY - 0.5) * spread,
                    i3 + 2 := (noiseZ - 0.5) * spread])"

definition calculateExplodedParticlePositions :: "nat \<Rightarrow> real list" where
  "calculateExplodedParticlePositions particleCount =
     fold explodedParticle [0..<particleCount] (replicate (particleCount * 3) 0)"

text \<open>
  The body of the loop of \<open>calculateTreeParticlePositions\<close>: the state is the array and
  the number of random values drawn so far.
\<close>

definition treeParticle ::
  "nat \<Rightarrow> (nat \<Rightarrow> real) \<Rightarrow> nat \<Rightarrow> real list \<times> nat \<Rightarrow> real list \<times> nat" where
  "treeParticle particleCount rnd i st =
     (case st of (positions', k) \<Rightarrow>
        let TREE_HEIGHT = PARTICLE_HEIGHT;
            TREE_RADIUS = PARTICLE_RADIUS;
            i3 = i * 3;
            randomCheck = rnd k;
            layerPct = real i / real particleCount;
            GOLDEN_ANGLE = 2.399963229728653
        in
          if randomCheck > 1 - layerPct * 0.7 then
            let redistributedPct = rnd (k + 1) * 0.5;
                actualLayerPct = redistributedPct;
                layerIndex = of_int \<lfloor>actualLayerPct * 12\<rfloor>;
                normalizedY = layerIndex / 12;
                linearFactor = 1 - normalizedY;
                curvedFactor = (1 - normalizedY) powr 1.3;
                layerRadiusMax = TREE_RADIUS * (linearFactor * 0.8 + curvedFactor * 0.2);
                angle = real i * GOLDEN_ANGLE;
                r = layerRadiusMax * sqrt (rnd (k + 2));
                y0 = - TREE_HEIGHT / 2 + normalizedY * TREE_HEIGHT;
                droop = r * 0.4;
                y1 = y0 - droop;
                yRandomness = (rnd (k + 3) - 0.5) * 0.6;
                depthJitter = (rnd (k + 4) - 0.5) * (0.8 + normalizedY * 1.2)
            in (positions'[i3 := cos angle * r + depthJitter * 0.3,
                           i3 + 1 := y1 + yRandomness,
                           i3 + 2 := sin angle * r + depthJitter * 0.3], k + 5)
          else
            let layerIndex = of_int \<lfloor>layerPct * 12\<rfloor>;
                normalizedY = layerIndex / 12;
                linearFactor = 1 - normalizedY;
                curvedFactor = (1 - normalizedY) powr 1.3;
                layerRadiusMax = TREE_RADIUS * (linearFactor * 0.8 + curvedFactor * 0.2);
                minRadius = 0.2;
                finalRadius = max minRadius layerRadiusMax;
                angle = real i * GOLDEN_ANGLE;
                r = finalRadius * sqrt (rnd (k + 1));
                y0 = - TREE_HEIGHT / 2 + normalizedY * TREE_HEIGHT;
                droop = r * 0.4;
                y1 = y0 - droop;
                yRandomness = (rnd (k + 2) - 0.5) * 0.6;
                depthJitter = (rnd (k + 3) - 0.5) * (0.8 + normalizedY * 1.2)
            in (positions'[i3 := cos angle * r + depthJitter * 0.3,
                           i3 + 1 := y1 + yRandomness,
                           i3 + 2 := sin angle * r + depthJitter * 0.3], k + 4))"

definition calculateTreeParticlePositions ::
  "nat \<Rightarrow> (nat \<Rightarrow> real) \<Rightarrow> nat \<Rightarrow> real list \<times> nat" where
  "calculateTreeParticlePositions particleCount rnd k =
     fold (treeParticle particleCount rnd) [0..<particleCount]
       (replicate (particleCount * 3) 0, k)"

section \<open>Particle physics integrator (\<open>ThreeScene.update\<close>)\<close>

type_synonym vec3 = "real \<times> real \<times> real"

text \<open>\<open>Vector3.length\<close> of three.js: the Euclidean length.\<close>

definition vlength :: "vec3 \<Rightarrow> real" where
  "vlength v = (case v of (a, b, c) \<Rightarrow> sqrt (a * a + b * b + c * c))"

text \<open>
  The body of the particle loop of \<open>update\<close> for particle \<open>i\<close>, on the position and
  velocity arrays. \<open>rnd i k\<close> is the value of the \<open>k\<close>-th call of \<open>Math.random()\<close>
  made in iteration \<open>i\<close>.
\<close>

definition updateParticle ::
  "real \<Rightarrow> real list \<Rightarrow> real list \<Rightarrow> (nat \<Rightarrow> nat \<Rightarrow> real) \<Rightarrow> nat
     \<Rightarrow> real list \<times> real list \<Rightarrow> real list \<times> real list" where
  "updateParticle pinchStrength' targetTree' targetExploded' rnd i pv =
     (case pv of (positions', velocities') \<Rightarrow>
        let gravityStrength = GRAVITY_STRENGTH;
            explosionStrength = EXPLOSION_STRENGTH;
            damping = DAMPING;
            brownMotion = BROWN_MOTION;
            i3 = i * 3;
            x = positions' ! i3;
            y = positions' ! (i3 + 1);
            z = positions' ! (i3 + 2);
            v1 =
              (if pinchStrength' > 0.01 then
                 let targetX = targetTree' ! i3;
                     targetY = targetTree' ! (i3 + 1);
                     targetZ = targetTree' ! (i3 + 2);
                     tempVec3a = (targetX - x, targetY - y, targetZ - z);
                     dist = vlength tempVec3a
                 in if dist > 0.01 then
                      let force = gravityStrength * pinchStrength';
                          normalizedForce = force / dist
                      in velocities'
                           [i3 := velocities' ! i3 + fst tempVec3a * normalizedForce,
                            i3 + 1 :=
                              velocities' ! (i3 + 1) + fst (snd tempVec3a) * normalizedForce,
                            i3 + 2 :=
                              velocities' ! (i3 + 2) + snd (snd tempVec3a) * normalizedForce]
                    else velocities'
               else
                 let targetX = targetExploded' ! i3;
                     targetY = targetExploded' ! (i3 + 1);
                     targetZ = targetExploded' ! (i3 + 2);
                     tempVec3b = (targetX - x, targetY - y, targetZ - z);
                     dist = vlength tempVec3b;
                     v0 =
                       (if dist > 0.01 then
                          let force = explosionStrength;
                              normalizedForce = force / dist
                          in velocities'
                               [i3 := velocities' ! i3 + fst tempVec3b * normalizedForce,
                                i3 + 1 :=
                                  velocities' ! (i3 + 1)
                                    + fst (snd tempVec3b) * normalizedForce,
                                i3 + 2 :=
                                  velocities' ! (i3 + 2)
                                    + snd (snd tempVec3b) * normalizedForce]
                        else velocities')
                 in v0[i3 := v0 ! i3 + (rnd i 0 - 0.5) * brownMotion,
                       i3 + 1 := v0 ! (i3 + 1) + (rnd i 1 - 0.5) * brownMotion,
                       i3 + 2 := v0 ! (i3 + 2) + (rnd i 2 - 0.5) * brownMotion]);
            v2 = v1[i3 := v1 ! i3 * damping,
                    i3 + 1 := v1 ! (i3 + 1) * damping,
                    i3 + 2 := v1 ! (i3 + 2) * damping];
            p2 = positions'[i3 := positions' ! i3 + v2 ! i3,
                            i3 + 1 := positions' ! (i3 + 1) + v2 ! (i3 + 1),
                            i3 + 2 := positions' ! (i3 + 2) + v2 ! (i3 + 2)]
        in (p2, v2))"

section \<open>Firework bursts\<close>

text \<open>
  A \<open>THREE.Points\<close> object with the buffers of its geometry and the fields of its
  material that the code reads or writes. \<open>dispose()\<close> sets the two flags.
\<close>

record Points =
  position_array :: "real list"
  color_array :: "real list"
  size_array :: "real list"
  material_size :: real
  opacity :: real
  geometry_disposed :: bool
  material_disposed :: bool

text \<open>The object pushed by the timer callback of \<open>createFireworkParticles\<close>.\<close>

record Firework =
  particles :: "Points option"
  fw_velocities :: "real list"
  age :: real
  lifetime :: real
  active :: bool
  layerIndex :: nat

record Layer =
  layer_count :: nat
  layer_speed :: real
  layer_size :: real
  layer_delay :: real

definition layers :: "Layer list" where
  "layers =
     [\<lparr> layer_count = 200, layer_speed = 0.8, layer_size = 0.8, layer_delay = 0 \<rparr>,
      \<lparr> layer_count = 150, layer_speed = 0.5, layer_size = 0.6, layer_delay = 0.1 \<rparr>,
      \<lparr> layer_count = 100, layer_speed = 0.3, layer_size = 0.4, layer_delay = 0.2 \<rparr>]"

text \<open>
  A pending \<open>setTimeout\<close> of \<open>createFireworkParticles\<close>: the delay in milliseconds and
  what the closure captured, \<open>t_array\<close> being the reference of the local array
  \<open>fireworks\<close> of the call that set the timer.
\<close>

record Timeout =
  t_delay :: real
  t_layer :: Layer
  t_layerIndex :: nat
  t_array :: nat
  t_x :: real
  t_y :: real
  t_z :: real

text \<open>
  What a timer callback takes from outside the repository: the values of
  \<open>Math.random()\<close> in call order, and \<open>Color.setHSL\<close> of three.js, which is not under
  \<open>src/\<close> and is a parameter.
\<close>

record fwenv =
  fw_rnd :: "nat \<Rightarrow> real"
  fw_setHSL :: "real \<Rightarrow> real \<Rightarrow> real \<Rightarrow> vec3"

text \<open>\<open>Color.lerpColors\<close> of three.js: linear interpolation per channel.\<close>

definition lerpColors :: "vec3 \<Rightarrow> vec3 \<Rightarrow> real \<Rightarrow> vec3" where
  "lerpColors c1 c2 alpha =
     (case c1 of (r1, g1, b1) \<Rightarrow> case c2 of (r2, g2, b2) \<Rightarrow>
        (r1 + (r2 - r1) * alpha, g1 + (g2 - g1) * alpha, b1 + (b2 - b1) * alpha))"

text \<open>
  The program state: the refs of the gesture hook, the fields of the \<open>ThreeScene\<close>
  instance that the modelled methods use, and the part of the JavaScript heap they
  share. Firework objects live in \<open>store\<close> and are referred to by their index there;
  \<open>fireworks\<close> is \<open>this.fireworks\<close>, \<open>arrays\<close> holds the arrays allocated by
  \<open>createFireworkParticles\<close>, and \<open>sceneChildren\<close> lists the fireworks whose \<open>Points\<close>
  object is a child of the scene. The star, the trunk, the snow, the rotation and the
  shader time do not enter any modelled computation and are left out.
\<close>

record World =
  gestureRefs :: refs
  colorThemeRef :: nat
  positions :: "real list"
  velocities :: "real list"
  targetTree :: "real list"
  targetExploded :: "real list"
  time :: real
  isPinching :: bool
  pinchStrength :: real
  colorTheme :: nat
  fireworks :: "nat list"
  sceneChildren :: "nat list"
  store :: "Firework list"
  arrays :: "nat list list"
  timers :: "Timeout list"

text \<open>The body of the particle loop of the timer callback, for particle \<open>i\<close>.\<close>

definition fireworkParticle ::
  "Layer \<Rightarrow> real \<Rightarrow> real \<Rightarrow> real \<Rightarrow> vec3 \<Rightarrow> vec3 \<Rightarrow> (nat \<Rightarrow> real) \<Rightarrow> nat
     \<Rightarrow> real list \<times> real list \<times> real list \<times> real list
     \<Rightarrow> real list \<times> real list \<times> real list \<times> real list" where
  "fireworkParticle layer x0 y0 z0 fwColor1 fwColor2 rnd i bufs =
     (case bufs of (fwPositions, fwVelocities, fwColors, fwSizes) \<Rightarrow>
        let FW_PARTICLES = layer_count layer;
            k = 2 + 4 * i;
            fwPositions1 = fwPositions[i * 3 := x0, i * 3 + 1 := y0, i * 3 + 2 := z0];
            theta = rnd k * pi * 2;
            phi = arccos (2 * rnd (k + 1) - 1);
            speed = (rnd (k + 2) * 0.4 + 0.8) * layer_speed layer;
            fwVelocities1 =
              fwVelocities[i * 3 := sin phi * cos theta * speed,
                           i * 3 + 1 := sin phi * sin theta * speed,
                           i * 3 + 2 := cos phi * speed];
            colorMix = real i / real FW_PARTICLES;
            tempColor = lerpColors fwColor1 fwColor2 colorMix;
            fwColors1 =
              fwColors[i * 3 := fst tempColor,
                       i * 3 + 1 := fst (snd tempColor),
                       i * 3 + 2 := snd (snd tempColor)];
            fwSizes1 = fwSizes[i := layer_size layer * (0.8 + rnd (k + 3) * 0.4)]
        in (fwPositions1, fwVelocities1, fwColors1, fwSizes1))"

text \<open>
  three.js is not under \<open>src/\<close>. It exports no \<open>Float32Array\<close>: the property
  \<open>THREE.Float32Array\<close> is \<open>undefined\<close>, here the absent constructor, and
  \<open>new THREE.Float32Array(n)\<close> throws a \<open>TypeError\<close>.
\<close>

datatype error = TypeError

definition THREE_Float32Array :: "(nat \<Rightarrow> real list) option" where
  "THREE_Float32Array = None"

text \<open>
  The callback passed to \<open>setTimeout\<close>. It allocates the position and velocity arrays
  and then evaluates \<open>new THREE.Float32Array(FW_PARTICLES * 3)\<close> for the colours, which
  throws: the result is the error, and the rest of the body (the loop over the
  particles, \<open>scene.add\<close>, the push onto the array the closure captured) is the branch
  of a constructor that is present. A random value \<open>v\<close> is in \<open>[0, 1)\<close>, where
  \<open>(v + 0.3) % 1.0\<close> is the fractional part; a new \<open>PointsMaterial\<close> has opacity 1.
\<close>

definition fireworkTimeout :: "Timeout \<Rightarrow> fwenv \<Rightarrow> World \<Rightarrow> error + World" where
  "fireworkTimeout t env w =
     (let layer = t_layer t;
          rnd = fw_rnd env;
          FW_PARTICLES = layer_count layer;
          fwPositions0 = replicate (FW_PARTICLES * 3) 0;
          fwVelocities0 = replicate (FW_PARTICLES * 3) 0
      in case THREE_Float32Array of
           None \<Rightarrow> Inl TypeError
         | Some newFloat32Array \<Rightarrow>
             (let fwColors0 = newFloat32Array (FW_PARTICLES * 3);
                  fwSizes0 = replicate FW_PARTICLES 0;
                  fwColor1 = fw_setHSL env (rnd 0) 1.0 0.6;
                  fwColor2 = fw_setHSL env (frac (rnd 1 + 0.3)) 1.0 0.7;
                  (fwPositions, fwVelocities, fwColors, fwSizes) =
                    fold (fireworkParticle layer (t_x t) (t_y t) (t_z t) fwColor1 fwColor2 rnd)
                      [0..<FW_PARTICLES]
                      (fwPositions0, fwVelocities0, fwColors0, fwSizes0);
                  fwParticles =
                    \<lparr> position_array = fwPositions, color_array = fwColors,
                      size_array = fwSizes, material_size = layer_size layer, opacity = 1,
                      geometry_disposed = False, material_disposed = False \<rparr>;
                  fw = \<lparr> particles = Some fwParticles, fw_velocities = fwVelocities,
                         age = 0, lifetime = 3.0, active = True,
                         layerIndex = t_layerIndex t \<rparr>;
                  ref = length (store w)
              in Inr (w\<lparr> store := store w @ [fw],
                        sceneChildren := sceneChildren w @ [ref],
                        arrays := (arrays w)[t_array t := arrays w ! t_array t @ [ref]] \<rparr>)))"

text \<open>
  \<open>createFireworkParticles\<close> allocates the array \<open>fireworks\<close>, sets one timer per layer
  and returns the array; nothing is pushed before a timer fires.
\<close>

definition createFireworkParticles ::
  "real \<Rightarrow> real \<Rightarrow> real \<Rightarrow> nat \<Rightarrow> World \<Rightarrow> nat \<times> World" where
  "createFireworkParticles x0 y0 z0 themeIndex w =
     (let fireworks' = length (arrays w);
          w1 = w\<lparr> arrays := arrays w @ [[]] \<rparr>;
          w2 = fold (\<lambda>(layer, layerIndex') w'.
                  w'\<lparr> timers := timers w' @
                        [\<lparr> t_delay = layer_delay layer * 1000, t_layer = layer,
                           t_layerIndex = layerIndex', t_array = fireworks',
                           t_x = x0, t_y = y0, t_z = z0 \<rparr>] \<rparr>)
                 (zip layers [0..<length layers]) w1
      in (fireworks', w2))"

text \<open>
  \<open>createFireworks\<close>: \<open>this.fireworks.push(...newFireworks)\<close> appends the elements that
  the returned array holds when the statement runs.
\<close>

definition createFireworks :: "real \<Rightarrow> real \<Rightarrow> real \<Rightarrow> World \<Rightarrow> World" where
  "createFireworks x0 y0 z0 w =
     (let (newFireworks, w1) = createFireworkParticles x0 y0 z0 (colorTheme w) w
      in w1\<lparr> fireworks := fireworks w1 @ (arrays w1 ! newFireworks) \<rparr>)"

text \<open>The body of the inner loop of \<open>updateFireworks\<close>, for particle \<open>j\<close> of a burst.\<close>

definition updateFireworkParticle ::
  "real \<Rightarrow> real \<Rightarrow> nat \<Rightarrow> real list \<times> real list \<times> real list
     \<Rightarrow> real list \<times> real list \<times> real list" where
  "updateFireworkParticle age' lifetime' j bufs =
     (case bufs of (positions', velocities', colors) \<Rightarrow>
        let j3 = j * 3;
            p1 = positions'[j3 := positions' ! j3 + velocities' ! j3,
                            j3 + 1 := positions' ! (j3 + 1) + velocities' ! (j3 + 1),
                            j3 + 2 := positions' ! (j3 + 2) + velocities' ! (j3 + 2)];
            v1 = velocities'[j3 + 1 := velocities' ! (j3 + 1) - FIREWORKS_GRAVITY];
            v2 = v1[j3 := v1 ! j3 * FIREWORKS_AIR_RESISTANCE,
                    j3 + 1 := v1 ! (j3 + 1) * FIREWORKS_AIR_RESISTANCE,
                    j3 + 2 := v1 ! (j3 + 2) * FIREWORKS_AIR_RESISTANCE];
            ageFactor = age' / lifetime';
            c1 =
              (if ageFactor > 0.5 then
                 let whiteMix = (ageFactor - 0.5) * 0.6
                 in colors[j3 := colors ! j3 * (1 - whiteMix) + whiteMix,
                           j3 + 1 := colors ! (j3 + 1) * (1 - whiteMix) + whiteMix,
                           j3 + 2 := colors ! (j3 + 2) * (1 - whiteMix) + whiteMix]
               else colors)
        in (p1, v2, c1))"

text \<open>
  The body of the outer loop of \<open>updateFireworks\<close> for index \<open>i\<close> of \<open>this.fireworks\<close>.
  The inner loop runs over the \<open>j\<close> with \<open>j < positions.length / 3\<close>, a division of
  numbers: there are \<open>(length + 2) div 3\<close> of them.
\<close>

definition updateFirework :: "nat \<Rightarrow> World \<Rightarrow> World" where
  "updateFirework i w =
     (let ref = fireworks w ! i;
          fw = store w ! ref
      in if \<not> active fw then w
         else
           let fw1 = fw\<lparr> age := age fw + 0.016 \<rparr>
           in if age fw1 > lifetime fw1 then
                let fw2 = fw1\<lparr> active := False \<rparr>
                in (case particles fw2 of
                      None \<Rightarrow> w\<lparr> store := (store w)[ref := fw2] \<rparr>
                    | Some p \<Rightarrow>
                        w\<lparr> sceneChildren := removeAll ref (sceneChildren w),
                           store := (store w)[ref := fw2\<lparr> particles :=
                             Some (p\<lparr> geometry_disposed := True,
                                     material_disposed := True \<rparr>) \<rparr>] \<rparr>)
              else
                (case particles fw1 of
                   None \<Rightarrow> w\<lparr> store := (store w)[ref := fw1] \<rparr>
                 | Some p \<Rightarrow>
                     let positionCount = (length (position_array p) + 2) div 3;
                         lifetime' = lifetime fw1;
                         (positions', velocities', colors) =
                           fold (updateFireworkParticle (age fw1) lifetime')
                             [0..<positionCount]
                             (position_array p, fw_velocities fw1, color_array p);
                         ageFactor = age fw1 / lifetime';
                         opacity' =
                           (if ageFactor < 0.7 then 1.0 else 1 - (ageFactor - 0.7) / 0.3)
                     in w\<lparr> store := (store w)[ref := fw1\<lparr> fw_velocities := velocities',
                             particles := Some (p\<lparr> position_array := positions',
                               color_array := colors, opacity := opacity' \<rparr>) \<rparr>] \<rparr>))"

definition updateFireworks :: "World \<Rightarrow> World" where
  "updateFireworks w =
     (let w1 = fold updateFirework [0..<length (fireworks w)] w
      in w1\<lparr> fireworks := filter (\<lambda>ref. active (store w1 ! ref)) (fireworks w1) \<rparr>)"

section \<open>The animation tick and the gesture callbacks\<close>

definition update :: "real \<Rightarrow> (nat \<Rightarrow> nat \<Rightarrow> real) \<Rightarrow> World \<Rightarrow> World" where
  "update timeDelta rnd w =
     (let w1 = w\<lparr> time := time w + timeDelta \<rparr>;
          (positions', velocities') =
            fold (updateParticle (pinchStrength w1) (targetTree w1) (targetExploded w1) rnd)
              [0..<PARTICLE_COUNT] (positions w1, velocities w1);
          w2 = w1\<lparr> positions := positions', velocities := velocities' \<rparr>
      in updateFireworks w2)"

definition animate :: "(nat \<Rightarrow> nat \<Rightarrow> real) \<Rightarrow> World \<Rightarrow> World" where
  "animate rnd w = update 0.016 rnd w"

definition updatePinchState :: "bool \<Rightarrow> real \<Rightarrow> World \<Rightarrow> World" where
  "updatePinchState isPinching' strength w =
     w\<lparr> isPinching := isPinching', pinchStrength := strength \<rparr>"

text \<open>
  The callbacks \<open>GestureTree\<close> passes to the hook, as far as they reach the modelled
  state: the recolouring done by \<open>updateColorTheme\<close>, the snow of
  \<open>onTwoFingersGesture\<close>, the rotation target and the tweened \<open>pinchStrengthRef\<close> are
  outside it. \<open>threeSceneRef.current\<close> is taken to be set.
\<close>

definition onOneFingerGesture :: "World \<Rightarrow> World" where
  "onOneFingerGesture w =
     (let oldTheme = colorThemeRef w;
          newTheme = (oldTheme + 1) mod 3
      in w\<lparr> colorThemeRef := newTheme, colorTheme := newTheme \<rparr>)"

definition onTwoFingersGesture :: "World \<Rightarrow> World" where
  "onTwoFingersGesture w = w"

definition onThreeFingersGesture :: "World \<Rightarrow> World" where
  "onThreeFingersGesture w = createFireworks 0 0 0 w"

definition onFistGesture :: "real \<Rightarrow> real \<Rightarrow> real \<Rightarrow> World \<Rightarrow> World" where
  "onFistGesture strength palmX palmY w = updatePinchState True strength w"

definition onNoGesture :: "World \<Rightarrow> World" where
  "onNoGesture w = updatePinchState False 0 w"

definition invokeCallback :: "callback \<Rightarrow> World \<Rightarrow> World" where
  "invokeCallback cb w =
     (case cb of
        OneFingerGesture \<Rightarrow> onOneFingerGesture w
      | TwoFingersGesture \<Rightarrow> onTwoFingersGesture w
      | ThreeFingersGesture \<Rightarrow> onThreeFingersGesture w
      | FistGesture strength palmX palmY \<Rightarrow> onFistGesture strength palmX palmY w
      | NoGesture \<Rightarrow> onNoGesture w
      | OnError message \<Rightarrow> w
      | StatusChange st \<Rightarrow> w)"

text \<open>
  What the browser makes the program do: an animation frame, a frame of hand results,
  or the firing of the pending timer at an index (any pending timer may be chosen, which
  covers the order in which the browser fires them). The handler calls the callbacks
  while it runs; they do not touch its refs and it does not read the scene, so they are
  applied, in call order, after it. An error thrown by a timer callback is not
  caught: the callback ends there, and the state is as the callback has left it, which
  is as it was when the timer fired.
\<close>

datatype event =
    AnimationFrame "nat \<Rightarrow> nat \<Rightarrow> real"
  | HandsResults Results
  | TimerFires nat fwenv

definition step :: "event \<Rightarrow> World \<Rightarrow> World" where
  "step ev w =
     (case ev of
        AnimationFrame rnd \<Rightarrow> animate rnd w
      | HandsResults results \<Rightarrow>
          (let (r, cbs) = onResults (gestureRefs w) results
           in fold invokeCallback cbs (w\<lparr> gestureRefs := r \<rparr>))
      | TimerFires k env \<Rightarrow>
          (if k < length (timers w)
           then
             let w1 = w\<lparr> timers := take k (timers w) @ drop (Suc k) (timers w) \<rparr>
             in (case fireworkTimeout (timers w ! k) env w1 of
                   Inl e \<Rightarrow> w1
                 | Inr w2 \<Rightarrow> w2)
           else w))"

definition run :: "event list \<Rightarrow> World \<Rightarrow> World" where
  "run evs w = fold step evs w"

text \<open>
  The state the constructor of \<open>ThreeScene\<close> has built when it first calls \<open>animate\<close>
  (after \<open>setupParticleSystem\<close>), with the hook mounted: \<open>rnd\<close> is the stream of random
  values \<open>calculateTreeParticlePositions\<close> draws. Every call of \<open>animate\<close>, the first
  included, is an \<open>AnimationFrame\<close> event.
\<close>

definition initialWorld :: "(nat \<Rightarrow> real) \<Rightarrow> World" where
  "initialWorld rnd =
     \<lparr> gestureRefs = \<lparr> isMounted = True, wasOneFinger = False, wasTwoFingers = False,
                       wasThreeFingers = False \<rparr>,
       colorThemeRef = 0,
       positions = calculateExplodedParticlePositions PARTICLE_COUNT,
       velocities = replicate (PARTICLE_COUNT * 3) 0,
       targetTree = fst (calculateTreeParticlePositions PARTICLE_COUNT rnd 0),
       targetExploded = calculateExplodedParticlePositions PARTICLE_COUNT,
       time = 0,
       isPinching = False,
       pinchStrength = 0,
       colorTheme = 0,
       fireworks = [],
       sceneChildren = [],
       store = [],
       arrays = [],
       timers = [] \<rparr>"

section \<open>Notions used to state the properties of the dispatcher\<close>

text \<open>
  The three discrete gestures with their classifier flag, their latch and their
  callback; the rising edges of a sequence of conditions; and concrete hands: 21
  landmarks at height 0.5 except for the five finger tips.
\<close>

datatype gesture = OneFinger | TwoFingers | ThreeFingers

fun gestureCondition :: "gesture \<Rightarrow> FingerState \<Rightarrow> bool" where
  "gestureCondition OneFinger fs = isOneFinger fs"
| "gestureCondition TwoFingers fs = isTwoFingers fs"
| "gestureCondition ThreeFingers fs = isThreeFingers fs"

fun gestureLatch :: "gesture \<Rightarrow> refs \<Rightarrow> bool" where
  "gestureLatch OneFinger r = wasOneFinger r"
| "gestureLatch TwoFingers r = wasTwoFingers r"
| "gestureLatch ThreeFingers r = wasThreeFingers r"

fun gestureCallback :: "gesture \<Rightarrow> callback" where
  "gestureCallback OneFinger = OneFingerGesture"
| "gestureCallback TwoFingers = TwoFingersGesture"
| "gestureCallback ThreeFingers = ThreeFingersGesture"

fun risingEdges :: "bool \<Rightarrow> bool list \<Rightarrow> bool list" where
  "risingEdges prev [] = []"
| "risingEdges prev (c # cs) = (c \<and> \<not> prev) # risingEdges c cs"

definition gestureConditions :: "gesture \<Rightarrow> Results list \<Rightarrow> bool list" where
  "gestureConditions g frames =
     map (\<lambda>f. case classify f of Some fs \<Rightarrow> gestureCondition g fs | None \<Rightarrow> False) frames"

definition callbackCounts :: "callback \<Rightarrow> refs \<Rightarrow> Results list \<Rightarrow> nat list" where
  "callbackCounts cb r frames = map (\<lambda>es. count_list es cb) (snd (processFrames r frames))"

definition noHands :: "Results \<Rightarrow> bool" where
  "noHands f = (case multiHandLandmarks f of None \<Rightarrow> True | Some hs \<Rightarrow> hs = [])"

definition malformedHand :: "Results \<Rightarrow> bool" where
  "malformedHand f =
     (case multiHandLandmarks f of
        None \<Rightarrow> False
      | Some [] \<Rightarrow> False
      | Some (landmarks # others) \<Rightarrow>
          (case landmarks of None \<Rightarrow> True | Some lms \<Rightarrow> length lms < 21))"

definition isFistCallback :: "callback \<Rightarrow> bool" where
  "isFistCallback cb = (case cb of FistGesture s a b \<Rightarrow> True | _ \<Rightarrow> False)"

definition landmarkAt :: "real \<Rightarrow> Landmark" where
  "landmarkAt yy = \<lparr> lm_x = 0.5, lm_y = yy, lm_z = 0 \<rparr>"

definition handPose :: "real \<Rightarrow> real \<Rightarrow> real \<Rightarrow> real \<Rightarrow> real \<Rightarrow> Landmark list" where
  "handPose thumbY indexY middleY ringY pinkyY =
     [landmarkAt 0.5, landmarkAt 0.5, landmarkAt 0.5, landmarkAt 0.5, landmarkAt thumbY,
      landmarkAt 0.5, landmarkAt 0.5, landmarkAt 0.5, landmarkAt indexY, landmarkAt 0.5,
      landmarkAt 0.5, landmarkAt 0.5, landmarkAt middleY, landmarkAt 0.5, landmarkAt 0.5,
      landmarkAt 0.5, landmarkAt ringY, landmarkAt 0.5, landmarkAt 0.5, landmarkAt 0.5,
      landmarkAt pinkyY]"

definition frameOf :: "Landmark list \<Rightarrow> Results" where
  "frameOf lms = \<lparr> multiHandLandmarks = Some [Some lms] \<rparr>"

definition mountedRefs :: refs where
  "mountedRefs = \<lparr> isMounted = True, wasOneFinger = False, wasTwoFingers = False,
                   wasThreeFingers = False \<rparr>"

definition pointingFrame :: Results where
  "pointingFrame = frameOf (handPose 0.5 0.2 0.5 0.5 0.5)"

definition openThumbPointingFrame :: Results where
  "openThumbPointingFrame = frameOf (handPose 0.9 0.2 0.5 0.5 0.5)"

definition fistFrame :: Results where
  "fistFrame = frameOf (handPose 0.5 0.5 0.5 0.5 0.5)"

definition shortFrame :: Results where
  "shortFrame = frameOf (replicate 20 (landmarkAt 0.5))"

definition noHandFrame :: Results where
  "noHandFrame = \<lparr> multiHandLandmarks = None \<rparr>"

section \<open>Notions used to state the properties of the integrator\<close>

definition triple :: "real list \<Rightarrow> nat \<Rightarrow> vec3" where
  "triple xs i = (xs ! (i * 3), xs ! (i * 3 + 1), xs ! (i * 3 + 2))"

definition vadd :: "vec3 \<Rightarrow> vec3 \<Rightarrow> vec3" where
  "vadd u v = (case u of (a, b, c) \<Rightarrow> case v of (d, e, f) \<Rightarrow> (a + d, b + e, c + f))"

definition vsub :: "vec3 \<Rightarrow> vec3 \<Rightarrow> vec3" where
  "vsub u v = (case u of (a, b, c) \<Rightarrow> case v of (d, e, f) \<Rightarrow> (a - d, b - e, c - f))"

definition vscale :: "vec3 \<Rightarrow> real \<Rightarrow> vec3" where
  "vscale u k = (case u of (a, b, c) \<Rightarrow> (a * k, b * k, c * k))"

definition normalize :: "vec3 \<Rightarrow> vec3" where
  "normalize u = (case u of (a, b, c) \<Rightarrow>
     let l = (if vlength u = 0 then 1 else vlength u) in (a / l, b / l, c / l))"

definition brownian :: "(nat \<Rightarrow> real) \<Rightarrow> vec3" where
  "brownian r = ((r 0 - 0.5) * BROWN_MOTION, (r 1 - 0.5) * BROWN_MOTION,
                 (r 2 - 0.5) * BROWN_MOTION)"

definition forceInput :: "real \<Rightarrow> (nat \<Rightarrow> real) \<Rightarrow> vec3 \<Rightarrow> vec3 \<Rightarrow> vec3 \<Rightarrow> vec3" where
  "forceInput pinch r p t e =
     (if pinch > 0.01 then
        (if vlength (vsub t p) > 0.01
         then vscale (vsub t p) (GRAVITY_STRENGTH * pinch / vlength (vsub t p))
         else (0, 0, 0))
      else
        vadd (if vlength (vsub e p) > 0.01
              then vscale (vsub e p) (EXPLOSION_STRENGTH / vlength (vsub e p))
              else (0, 0, 0))
             (brownian r))"

definition particleStep ::
  "real \<Rightarrow> (nat \<Rightarrow> real) \<Rightarrow> vec3 \<Rightarrow> vec3 \<Rightarrow> vec3 \<Rightarrow> vec3 \<Rightarrow> vec3 \<times> vec3" where
  "particleStep pinch r p v t e =
     (let v' = vscale (vadd v (forceInput pinch r p t e)) DAMPING
      in (vadd p v', v'))"

definition randomInRange :: "(nat \<Rightarrow> real) \<Rightarrow> bool" where
  "randomInRange r = (\<forall>k. 0 \<le> r k \<and> r k < 1)"

definition speed :: "World \<Rightarrow> nat \<Rightarrow> real" where
  "speed w i = vlength (triple (velocities w) i)"

definition targetDistance :: "World \<Rightarrow> nat \<Rightarrow> real" where
  "targetDistance w i = vlength (vsub (triple (targetTree w) i) (triple (positions w) i))"

definition wellFormed :: "World \<Rightarrow> bool" where
  "wellFormed w \<longleftrightarrow>
     length (positions w) = PARTICLE_COUNT * 3 \<and> length (velocities w) = PARTICLE_COUNT * 3"

definition randomEvent :: "event \<Rightarrow> bool" where
  "randomEvent ev =
     (case ev of AnimationFrame rnd \<Rightarrow> (\<forall>i. randomInRange (rnd i)) | _ \<Rightarrow> True)"

definition strengthInRange :: "callback \<Rightarrow> bool" where
  "strengthInRange cb = (case cb of FistGesture s a b \<Rightarrow> 3 / 4 \<le> s \<and> s \<le> 1 | _ \<Rightarrow> True)"

definition pinchInRange :: "World \<Rightarrow> bool" where
  "pinchInRange w \<longleftrightarrow> 0 \<le> pinchStrength w \<and> pinchStrength w \<le> 1"

definition pinchConsistent :: "World \<Rightarrow> bool" where
  "pinchConsistent w \<longleftrightarrow>
     (isPinching w \<longleftrightarrow> pinchStrength w > 0.01) \<and> pinchInRange w"




section \<open>Concrete states of the integrator\<close>

definition orbitWorld :: World where
  "orbitWorld =
     \<lparr> gestureRefs = mountedRefs,
       colorThemeRef = 0,
       positions = (63 / 760) # replicate (PARTICLE_COUNT * 3 - 1) 0,
       velocities = (63 / 380) # replicate (PARTICLE_COUNT * 3 - 1) 0,
       targetTree = replicate (PARTICLE_COUNT * 3) 0,
       targetExploded = replicate (PARTICLE_COUNT * 3) 0,
       time = 0,
       isPinching = True,
       pinchStrength = 1,
       colorTheme = 0,
       fireworks = [],
       sceneChildren = [],
       store = [],
       arrays = [],
       timers = [] \<rparr>"

definition noJitter :: "nat \<Rightarrow> nat \<Rightarrow> real" where
  "noJitter i k = 0.5"



section \<open>Notions and inputs used to state the properties of the bursts\<close>





text \<open>
  What one pass of the loop body of \<open>updateFireworks\<close> does to the burst object
  itself (\<open>updateFirework\<close> above, without the store and the scene).
\<close>

definition tickBurst :: "Firework \<Rightarrow> Firework" where
  "tickBurst fw =
     (if \<not> active fw then fw
      else
        let fw1 = fw\<lparr> age := age fw + 0.016 \<rparr>
        in if age fw1 > lifetime fw1 then
             let fw2 = fw1\<lparr> active := False \<rparr>
             in (case particles fw2 of
                   None \<Rightarrow> fw2
                 | Some p \<Rightarrow>
                     fw2\<lparr> particles :=
                       Some (p\<lparr> geometry_disposed := True, material_disposed := True \<rparr>) \<rparr>)
           else
             (case particles fw1 of
                None \<Rightarrow> fw1
              | Some p \<Rightarrow>
                  let positionCount = (length (position_array p) + 2) div 3;
                      lifetime' = lifetime fw1;
                      (positions', velocities', colors) =
                        fold (updateFireworkParticle (age fw1) lifetime')
                          [0..<positionCount]
                          (position_array p, fw_velocities fw1, color_array p);
                      ageFactor = age fw1 / lifetime';
                      opacity' =
                        (if ageFactor < 0.7 then 1.0 else 1 - (ageFactor - 0.7) / 0.3)
                  in fw1\<lparr> fw_velocities := velocities',
                          particles := Some (p\<lparr> position_array := positions',
                            color_array := colors, opacity := opacity' \<rparr>) \<rparr>))"






section \<open>Properties of the gesture classifier and dispatcher\<close>

text \<open>
  What one classified frame does: each latch takes the value of its gesture flag, and
  each one-shot callback is called exactly when its flag is set and its latch was not.
\<close>

lemma handleGestures_refs:
  "fst (handleGestures r fs) =
     r\<lparr> wasOneFinger := isOneFinger fs, wasTwoFingers := isTwoFingers fs,
        wasThreeFingers := isThreeFingers fs \<rparr>"
  by (cases r) (auto simp: handleGestures_def Let_def split: prod.splits)

lemma handleGestures_events:
  "snd (handleGestures r fs) =
     (if isOneFinger fs \<and> \<not> wasOneFinger r then [OneFingerGesture] else []) @
     (if isTwoFingers fs \<and> \<not> wasTwoFingers r then [TwoFingersGesture] else []) @
     (if isThreeFingers fs \<and> \<not> wasThreeFingers r then [ThreeFingersGesture] else []) @
     (if isFist fs
      then [FistGesture (real (fingersCurled fs) / 4) (lm_x (palmBase fs)) (lm_y (palmBase fs))]
      else if \<not> isOneFinger fs \<and> \<not> isTwoFingers fs \<and> \<not> isThreeFingers fs
      then [NoGesture] else [])"
  by (cases r) (auto simp: handleGestures_def Let_def split: prod.splits)

lemma onResults_classified:
  "isMounted r \<Longrightarrow> classify f = Some fs \<Longrightarrow> onResults r f = handleGestures r fs"
  by (auto simp: onResults_def classify_def split: option.splits list.splits)

lemma onResults_unclassified:
  "classify f = None \<Longrightarrow> fst (onResults r f) = r"
  by (auto simp: onResults_def classify_def split: option.splits list.splits)

lemma handleGestures_latch:
  "gestureLatch g (fst (handleGestures r fs)) = gestureCondition g fs"
  by (cases g) (simp_all add: handleGestures_refs)

lemma handleGestures_count:
  "count_list (snd (handleGestures r fs)) (gestureCallback g) =
     (if gestureCondition g fs \<and> \<not> gestureLatch g r then 1 else 0)"
  by (cases g) (simp_all add: handleGestures_events)

lemma handleGestures_mounted:
  "isMounted (fst (handleGestures r fs)) = isMounted r"
  by (simp add: handleGestures_refs)

text \<open>Over a sequence of classified frames, by induction on the sequence.\<close>

lemma processFrames_edges:
  "isMounted r \<Longrightarrow> \<forall>f \<in> set frames. classify f \<noteq> None \<Longrightarrow>
   map (\<lambda>es. count_list es (gestureCallback g)) (snd (processFrames r frames)) =
     map (\<lambda>b. if b then 1 else 0)
       (risingEdges (gestureLatch g r)
          (map (\<lambda>f. gestureCondition g (the (classify f))) frames))"
proof (induction frames arbitrary: r)
  case Nil
  then show ?case by simp
next
  case (Cons f frames)
  from Cons.prems obtain fs where fs: "classify f = Some fs" by auto
  have step: "onResults r f = handleGestures r fs"
    using Cons.prems(1) fs by (rule onResults_classified)
  let ?r' = "fst (handleGestures r fs)"
  have m: "isMounted ?r'" using Cons.prems(1) by (simp add: handleGestures_mounted)
  have rest: "\<forall>f \<in> set frames. classify f \<noteq> None" using Cons.prems(2) by simp
  show ?case
    using Cons.IH [OF m rest] fs
    by (simp add: step split_beta handleGestures_count handleGestures_latch Let_def)
qed

lemma processFrames_latch:
  "isMounted r \<Longrightarrow> \<forall>f \<in> set frames. classify f \<noteq> None \<Longrightarrow>
   gestureLatch g (fst (processFrames r frames)) =
     last (gestureLatch g r # map (\<lambda>f. gestureCondition g (the (classify f))) frames)"
proof (induction frames arbitrary: r)
  case Nil
  then show ?case by simp
next
  case (Cons f frames)
  from Cons.prems obtain fs where fs: "classify f = Some fs" by auto
  have step: "onResults r f = handleGestures r fs"
    using Cons.prems(1) fs by (rule onResults_classified)
  let ?r' = "fst (handleGestures r fs)"
  have m: "isMounted ?r'" using Cons.prems(1) by (simp add: handleGestures_mounted)
  have rest: "\<forall>f \<in> set frames. classify f \<noteq> None" using Cons.prems(2) by simp
  show ?case
    using Cons.IH [OF m rest] fs
    by (simp add: step split_beta handleGestures_latch Let_def)
qed

text \<open>The concrete hands, classified by evaluation.\<close>

lemmas GESTURE_THRESHOLDS =
  INDEX_CURLED_def MIDDLE_CURLED_def RING_CURLED_def PINKY_CURLED_def THUMB_CURLED_def
  INDEX_EXTENDED_def MIDDLE_EXTENDED_def RING_EXTENDED_def PINKY_EXTENDED_def

lemmas fixture_defs =
  pointingFrame_def openThumbPointingFrame_def fistFrame_def shortFrame_def noHandFrame_def
  frameOf_def handPose_def landmarkAt_def classify_def calculateFingerStates_def
  GESTURE_THRESHOLDS Let_def

lemma classify_pointing:
  "\<exists>fs. classify pointingFrame = Some fs \<and> isOneFinger fs \<and> \<not> isTwoFingers fs
        \<and> \<not> isThreeFingers fs \<and> isFist fs \<and> fingersCurled fs = 3"
  by (simp add: fixture_defs)

lemma classify_fist:
  "\<exists>fs. classify fistFrame = Some fs \<and> \<not> isOneFinger fs \<and> \<not> isTwoFingers fs
        \<and> \<not> isThreeFingers fs \<and> isFist fs \<and> fingersCurled fs = 4"
  by (simp add: fixture_defs)

lemma classify_short: "classify shortFrame = None" "malformedHand shortFrame"
  by (simp_all add: fixture_defs malformedHand_def)

lemma processFrames_fst_append:
  "fst (processFrames r (xs @ ys)) = fst (processFrames (fst (processFrames r xs)) ys)"
  by (induction xs arbitrary: r) (simp_all add: split_beta Let_def)

lemma processFrames_snd_append:
  "snd (processFrames r (xs @ ys)) =
     snd (processFrames r xs) @ snd (processFrames (fst (processFrames r xs)) ys)"
  by (induction xs arbitrary: r) (simp_all add: split_beta Let_def)

lemma processFrames_unclassified:
  "\<forall>b \<in> set bs. classify b = None \<Longrightarrow> fst (processFrames r bs) = r"
  by (induction bs arbitrary: r) (simp_all add: split_beta Let_def onResults_unclassified)

lemma gestureConditions_classified:
  "\<forall>f \<in> set frames. classify f \<noteq> None \<Longrightarrow>
   gestureConditions g frames = map (\<lambda>f. gestureCondition g (the (classify f))) frames"
  by (auto simp: gestureConditions_def)

text \<open>
  Claim C5. For each discrete gesture \<open>g\<close> (one, two, three fingers) and every sequence of
  classified frames, the number of calls of the gesture's one-shot callback in each frame
  is 1 on the frames where the gesture condition is true and was false on the frame
  before (the latch \<open>gestureLatch g r\<close> standing for the frame before the first one), and 0
  on every other frame; after every frame the latch equals the frame's condition, so it
  is re-armed by the first frame where the condition is false. For the condition
  sequence \<open>[F,F,T,T,T,F,T]\<close> the callback is called at indices 2 and 6 only, once each.
\<close>

theorem C5_edge_triggered_callbacks:
  assumes "isMounted r" and "\<forall>f \<in> set frames. classify f \<noteq> None"
  shows "callbackCounts (gestureCallback g) r frames =
           map (\<lambda>b. if b then 1 else 0)
             (risingEdges (gestureLatch g r) (gestureConditions g frames))
         \<and> gestureLatch g (fst (processFrames r frames)) =
             last (gestureLatch g r # gestureConditions g frames)
         \<and> (\<not> gestureLatch g r
              \<and> gestureConditions g frames = [False, False, True, True, True, False, True]
            \<longrightarrow> callbackCounts (gestureCallback g) r frames = [0, 0, 1, 0, 0, 0, 1])"
proof -
  have edges: "callbackCounts (gestureCallback g) r frames =
      map (\<lambda>b. if b then 1 else 0)
        (risingEdges (gestureLatch g r) (gestureConditions g frames))"
    unfolding callbackCounts_def gestureConditions_classified [OF assms(2)]
    using assms by (rule processFrames_edges)
  have latch: "gestureLatch g (fst (processFrames r frames)) =
      last (gestureLatch g r # gestureConditions g frames)"
    unfolding gestureConditions_classified [OF assms(2)]
    using assms by (rule processFrames_latch)
  show ?thesis using edges latch by simp
qed

text \<open>
  Seven frames (fist, fist, pointing, pointing, pointing, fist, pointing) whose
  one-finger conditions are \<open>[F,F,T,T,T,F,T]\<close>.
\<close>

theorem C5_edge_triggered_callbacks_witness:
  "isMounted mountedRefs
   \<and> list_all (\<lambda>f. classify f \<noteq> None)
        [fistFrame, fistFrame, pointingFrame, pointingFrame, pointingFrame, fistFrame,
         pointingFrame]
   \<and> \<not> gestureLatch OneFinger mountedRefs
   \<and> gestureConditions OneFinger
        [fistFrame, fistFrame, pointingFrame, pointingFrame, pointingFrame, fistFrame,
         pointingFrame] = [False, False, True, True, True, False, True]
   \<and> callbackCounts OneFingerGesture mountedRefs
        [fistFrame, fistFrame, pointingFrame, pointingFrame, pointingFrame, fistFrame,
         pointingFrame] = [0, 0, 1, 0, 0, 0, 1]"
proof -
  let ?frames = "[fistFrame, fistFrame, pointingFrame, pointingFrame, pointingFrame,
                  fistFrame, pointingFrame]"
  have m: "isMounted mountedRefs" by (simp add: mountedRefs_def)
  have c: "\<forall>f \<in> set ?frames. classify f \<noteq> None" by (simp add: fixture_defs)
  have l: "\<not> gestureLatch OneFinger mountedRefs" by (simp add: mountedRefs_def)
  have g: "gestureConditions OneFinger ?frames = [False, False, True, True, True, False, True]"
    by (simp add: gestureConditions_def fixture_defs)
  show ?thesis
    using C5_edge_triggered_callbacks [OF m c, of OneFinger] m c l g by simp
qed

text \<open>
  Claim C10. A frame with no detected hand or with a malformed landmark set (the
  classifier returns null) leaves the refs, hence the three latches, as they were; so
  when a gesture holds on a classified frame, any number of such frames follow, and the
  gesture holds again on the next classified frame, its one-shot callback is not called
  on that frame.
\<close>

theorem C10_latches_kept_on_unclassified_frame:
  assumes "isMounted r"
    and "classify f1 = Some fs1" and "gestureCondition g fs1"
    and "\<forall>b \<in> set bs. classify b = None"
    and "classify f2 = Some fs2" and "gestureCondition g fs2"
  shows "(\<forall>b \<in> set bs. fst (onResults r b) = r)
         \<and> gestureLatch g (fst (processFrames r (f1 # bs))) = gestureLatch g (fst (onResults r f1))
         \<and> gestureCallback g \<notin> set (last (snd (processFrames r (f1 # bs @ [f2]))))"
proof -
  have keep: "\<forall>b \<in> set bs. fst (onResults r b) = r"
    using assms(4) by (simp add: onResults_unclassified)
  have s1: "onResults r f1 = handleGestures r fs1"
    using assms(1,2) by (rule onResults_classified)
  let ?r1 = "fst (handleGestures r fs1)"
  have m1: "isMounted ?r1" using assms(1) by (simp add: handleGestures_mounted)
  have l1: "gestureLatch g ?r1" using assms(3) by (simp add: handleGestures_latch)
  have after: "fst (processFrames r (f1 # bs)) = ?r1"
    using assms(4) by (simp add: s1 split_beta Let_def processFrames_unclassified)
  have s2: "onResults ?r1 f2 = handleGestures ?r1 fs2"
    using m1 assms(5) by (rule onResults_classified)
  have "f1 # bs @ [f2] = (f1 # bs) @ [f2]" by simp
  then have "last (snd (processFrames r (f1 # bs @ [f2]))) = snd (handleGestures ?r1 fs2)"
    by (simp only: processFrames_snd_append after) (simp add: s2 split_beta Let_def)
  moreover have "count_list (snd (handleGestures ?r1 fs2)) (gestureCallback g) = 0"
    using l1 by (simp add: handleGestures_count)
  ultimately have "gestureCallback g \<notin> set (last (snd (processFrames r (f1 # bs @ [f2]))))"
    by (simp add: count_list_0_iff)
  then show ?thesis using keep after s1 by simp
qed

text \<open>
  A pointing hand, then a frame without a hand and a frame of 20 landmarks, then the
  pointing hand again.
\<close>

theorem C10_latches_kept_on_unclassified_frame_witness:
  "isMounted mountedRefs
   \<and> (\<exists>fs. classify pointingFrame = Some fs \<and> gestureCondition OneFinger fs)
   \<and> list_all (\<lambda>b. classify b = None) [noHandFrame, shortFrame]
   \<and> list_all (\<lambda>b. fst (onResults mountedRefs b) = mountedRefs) [noHandFrame, shortFrame]
   \<and> OneFingerGesture \<notin> set (last (snd (processFrames mountedRefs
        (pointingFrame # [noHandFrame, shortFrame] @ [pointingFrame]))))"
proof -
  have m: "isMounted mountedRefs" by (simp add: mountedRefs_def)
  obtain fs where fs: "classify pointingFrame = Some fs" "gestureCondition OneFinger fs"
    using classify_pointing by auto
  have b: "\<forall>b \<in> set [noHandFrame, shortFrame]. classify b = None"
    by (simp add: fixture_defs)
  show ?thesis
    using C10_latches_kept_on_unclassified_frame [OF m fs b fs] m fs b by auto
qed

text \<open>
  Claim C2 as stated fails: on a frame whose hand has 20 landmarks the handler returns at
  \<open>if (!fingerState) return\<close> and calls no callback, \<open>onNoGesture\<close> included.
\<close>

theorem C2_short_frame_counterexample:
  "isMounted mountedRefs \<and> malformedHand shortFrame
   \<and> onResults mountedRefs shortFrame = (mountedRefs, [])
   \<and> NoGesture \<notin> set (snd (onResults mountedRefs shortFrame))"
  by (simp add: onResults_def fixture_defs malformedHand_def mountedRefs_def)

text \<open>
  Claim C2, amended. While the hook is mounted: a frame without a hand
  (\<open>multiHandLandmarks\<close> absent or empty) makes the handler call exactly \<open>onNoGesture\<close>; a
  frame whose first hand's landmark set is falsy or has fewer than 21 points makes it
  call nothing at all; in both cases the refs are unchanged and \<open>onError\<close> is not called.
\<close>

theorem C2_no_hand_or_malformed_frame:
  assumes "isMounted r"
  shows "(noHands f \<longrightarrow> onResults r f = (r, [NoGesture]))
         \<and> (malformedHand f \<longrightarrow> onResults r f = (r, []))
         \<and> (noHands f \<or> malformedHand f \<longrightarrow> (\<forall>m. OnError m \<notin> set (snd (onResults r f))))"
  using assms
  by (auto simp: noHands_def malformedHand_def onResults_def calculateFingerStates_def
      split: option.splits list.splits)

text \<open>A frame without hands and a frame of 20 landmarks.\<close>

theorem C2_no_hand_or_malformed_frame_witness:
  "isMounted mountedRefs \<and> noHands noHandFrame \<and> malformedHand shortFrame
   \<and> onResults mountedRefs noHandFrame = (mountedRefs, [NoGesture])
   \<and> onResults mountedRefs shortFrame = (mountedRefs, [])
   \<and> (\<forall>m. OnError m \<notin> set (snd (onResults mountedRefs noHandFrame)))
   \<and> (\<forall>m. OnError m \<notin> set (snd (onResults mountedRefs shortFrame)))"
proof -
  have m: "isMounted mountedRefs" by (simp add: mountedRefs_def)
  have n: "noHands noHandFrame" by (simp add: noHands_def noHandFrame_def)
  have s: "malformedHand shortFrame" by (simp add: malformedHand_def fixture_defs)
  show ?thesis
    using C2_no_hand_or_malformed_frame [OF m, of noHandFrame]
      C2_no_hand_or_malformed_frame [OF m, of shortFrame] m n s by simp
qed

text \<open>
  A classified fist has three or four curled fingers. The classifier is unfolded on the
  two fields concerned only.
\<close>

lemma filter4_le: "length (filter P [a, b, c, d]) \<le> 4"
  using length_filter_le [of P "[a, b, c, d]"] by (simp del: filter.simps)

lemma calculateFingerStates_None: "calculateFingerStates None = None"
  by (simp add: calculateFingerStates_def)

lemma calculateFingerStates_short:
  "length l < 21 \<Longrightarrow> calculateFingerStates (Some l) = None"
  by (simp add: calculateFingerStates_def)

lemma calculateFingerStates_Some:
  assumes "calculateFingerStates lms = Some fs"
  shows "\<exists>l. lms = Some l \<and> \<not> length l < 21"
proof (cases lms)
  case None
  with assms show ?thesis by (simp add: calculateFingerStates_None)
next
  case (Some l)
  with assms have "\<not> length l < 21"
    using calculateFingerStates_short [of l] by auto
  with Some show ?thesis by simp
qed

lemma fingersCurled_classified:
  "\<not> length l < 21 \<Longrightarrow>
   fingersCurled (the (calculateFingerStates (Some l))) =
     length (filter (\<lambda>b. b)
       [\<bar>lm_y (l ! 8) - lm_y (l ! 9)\<bar> < INDEX_CURLED,
        \<bar>lm_y (l ! 12) - lm_y (l ! 9)\<bar> < MIDDLE_CURLED,
        \<bar>lm_y (l ! 16) - lm_y (l ! 9)\<bar> < RING_CURLED,
        \<bar>lm_y (l ! 20) - lm_y (l ! 9)\<bar> < PINKY_CURLED])"
  by (simp add: calculateFingerStates_def Let_def del: filter.simps)

lemma isFist_classified:
  "\<not> length l < 21 \<Longrightarrow>
   isFist (the (calculateFingerStates (Some l))) \<longrightarrow>
     3 \<le> fingersCurled (the (calculateFingerStates (Some l)))"
  by (simp add: calculateFingerStates_def Let_def del: filter.simps)

lemma calculateFingerStates_fist_count:
  assumes "calculateFingerStates lms = Some fs" and "isFist fs"
  shows "3 \<le> fingersCurled fs \<and> fingersCurled fs \<le> 4"
proof -
  from assms(1) obtain l where l: "lms = Some l" "\<not> length l < 21"
    using calculateFingerStates_Some by blast
  have fs: "fs = the (calculateFingerStates (Some l))"
    using assms(1) l(1) by simp
  show ?thesis
    using fingersCurled_classified [OF l(2)] isFist_classified [OF l(2)] assms(2) filter4_le
    unfolding fs by (simp del: filter.simps)
qed

lemma classify_fist_count:
  "classify f = Some fs \<Longrightarrow> isFist fs \<Longrightarrow> 3 \<le> fingersCurled fs \<and> fingersCurled fs \<le> 4"
  by (auto simp: classify_def split: option.splits list.splits
      dest: calculateFingerStates_fist_count)

text \<open>
  Claim C8. On every frame the classifier reports as a fist, the handler calls
  \<open>onFistGesture\<close> exactly once, with the strength \<open>fingersCurled / 4.0\<close> of the
  classifier's count of curled fingers among index, middle, ring and pinky (and the
  palm base coordinates), and that strength lies in \<open>[0.75, 1.0]\<close>.
\<close>

theorem C8_fist_strength:
  assumes "isMounted r" and "classify f = Some fs" and "isFist fs"
  shows "filter isFistCallback (snd (onResults r f)) =
           [FistGesture (real (fingersCurled fs) / 4) (lm_x (palmBase fs)) (lm_y (palmBase fs))]
         \<and> 0.75 \<le> real (fingersCurled fs) / 4 \<and> real (fingersCurled fs) / 4 \<le> 1"
proof -
  have "onResults r f = handleGestures r fs"
    using assms(1,2) by (rule onResults_classified)
  then have ev: "filter isFistCallback (snd (onResults r f)) =
      [FistGesture (real (fingersCurled fs) / 4) (lm_x (palmBase fs)) (lm_y (palmBase fs))]"
    using assms(3) by (simp add: handleGestures_events isFistCallback_def)
  have "3 \<le> fingersCurled fs \<and> fingersCurled fs \<le> 4"
    using assms(2,3) by (rule classify_fist_count)
  then have "0.75 \<le> real (fingersCurled fs) / 4 \<and> real (fingersCurled fs) / 4 \<le> 1"
    by simp
  with ev show ?thesis by simp
qed

text \<open>The pointing hand with the thumb tucked: three curled fingers, strength 0.75.\<close>

theorem C8_fist_strength_witness:
  "isMounted mountedRefs
   \<and> (\<exists>fs. classify pointingFrame = Some fs \<and> isFist fs
        \<and> filter isFistCallback (snd (onResults mountedRefs pointingFrame)) =
            [FistGesture (real (fingersCurled fs) / 4) (lm_x (palmBase fs)) (lm_y (palmBase fs))]
        \<and> real (fingersCurled fs) / 4 = 0.75)"
proof -
  have m: "isMounted mountedRefs" by (simp add: mountedRefs_def)
  obtain fs where fs: "classify pointingFrame = Some fs" "isFist fs" "fingersCurled fs = 3"
    using classify_pointing by auto
  show ?thesis
    using C8_fist_strength [OF m fs(1) fs(2)] m fs by simp
qed

text \<open>
  Claim C6 as stated fails: with the index tip 0.3 above the palm base and the middle,
  ring, pinky and thumb tips at palm height, the classifier sets \<open>isOneFinger\<close> and
  \<open>isFist\<close> both (three curled fingers and a curled thumb).
\<close>

theorem C6_pointing_hand_counterexample:
  "length (handPose 0.5 0.2 0.5 0.5 0.5) = 21
   \<and> \<bar>lm_y (handPose 0.5 0.2 0.5 0.5 0.5 ! 8) - lm_y (handPose 0.5 0.2 0.5 0.5 0.5 ! 9)\<bar>
        > INDEX_EXTENDED
   \<and> \<bar>lm_y (handPose 0.5 0.2 0.5 0.5 0.5 ! 12) - lm_y (handPose 0.5 0.2 0.5 0.5 0.5 ! 9)\<bar>
        < MIDDLE_EXTENDED
   \<and> \<bar>lm_y (handPose 0.5 0.2 0.5 0.5 0.5 ! 16) - lm_y (handPose 0.5 0.2 0.5 0.5 0.5 ! 9)\<bar>
        < RING_EXTENDED
   \<and> \<bar>lm_y (handPose 0.5 0.2 0.5 0.5 0.5 ! 20) - lm_y (handPose 0.5 0.2 0.5 0.5 0.5 ! 9)\<bar>
        < PINKY_EXTENDED
   \<and> map_option isOneFinger (calculateFingerStates (Some (handPose 0.5 0.2 0.5 0.5 0.5)))
        = Some True
   \<and> map_option isFist (calculateFingerStates (Some (handPose 0.5 0.2 0.5 0.5 0.5)))
        = Some True"
  by (simp add: fixture_defs)

text \<open>
  Claim C6, amended. For every landmark set of at least 21 points whose index tip is
  beyond the extension threshold from the palm base and whose middle, ring and pinky
  tips are not, the classifier yields \<open>isOneFinger = true\<close>, \<open>isTwoFingers = false\<close> and
  \<open>isThreeFingers = false\<close>; \<open>isFist\<close> is true exactly when the middle, ring and pinky
  tips are all within their curl threshold of the palm base height and the thumb tip is
  within its own.
\<close>

theorem C6_one_finger_classification:
  assumes "21 \<le> length lms"
    and "\<bar>lm_y (lms ! 8) - lm_y (lms ! 9)\<bar> > INDEX_EXTENDED"
    and "\<bar>lm_y (lms ! 12) - lm_y (lms ! 9)\<bar> \<le> MIDDLE_EXTENDED"
    and "\<bar>lm_y (lms ! 16) - lm_y (lms ! 9)\<bar> \<le> RING_EXTENDED"
    and "\<bar>lm_y (lms ! 20) - lm_y (lms ! 9)\<bar> \<le> PINKY_EXTENDED"
  shows "\<exists>fs. calculateFingerStates (Some lms) = Some fs
           \<and> isOneFinger fs \<and> \<not> isTwoFingers fs \<and> \<not> isThreeFingers fs
           \<and> (isFist fs \<longleftrightarrow>
                \<bar>lm_y (lms ! 12) - lm_y (lms ! 9)\<bar> < MIDDLE_CURLED
                \<and> \<bar>lm_y (lms ! 16) - lm_y (lms ! 9)\<bar> < RING_CURLED
                \<and> \<bar>lm_y (lms ! 20) - lm_y (lms ! 9)\<bar> < PINKY_CURLED
                \<and> \<bar>lm_y (lms ! 4) - lm_y (lms ! 9)\<bar> < THUMB_CURLED)"
proof -
  have "\<not> \<bar>lm_y (lms ! 8) - lm_y (lms ! 9)\<bar> < INDEX_CURLED"
    using assms(2) by (simp add: GESTURE_THRESHOLDS)
  then show ?thesis
    using assms by (auto simp: calculateFingerStates_def Let_def)
qed

text \<open>The pointing hand with the thumb stretched away from the palm: no fist.\<close>

theorem C6_one_finger_classification_witness:
  "21 \<le> length (handPose 0.9 0.2 0.5 0.5 0.5)
   \<and> \<bar>lm_y (handPose 0.9 0.2 0.5 0.5 0.5 ! 8) - lm_y (handPose 0.9 0.2 0.5 0.5 0.5 ! 9)\<bar>
        > INDEX_EXTENDED
   \<and> \<bar>lm_y (handPose 0.9 0.2 0.5 0.5 0.5 ! 12) - lm_y (handPose 0.9 0.2 0.5 0.5 0.5 ! 9)\<bar>
        \<le> MIDDLE_EXTENDED
   \<and> \<bar>lm_y (handPose 0.9 0.2 0.5 0.5 0.5 ! 16) - lm_y (handPose 0.9 0.2 0.5 0.5 0.5 ! 9)\<bar>
        \<le> RING_EXTENDED
   \<and> \<bar>lm_y (handPose 0.9 0.2 0.5 0.5 0.5 ! 20) - lm_y (handPose 0.9 0.2 0.5 0.5 0.5 ! 9)\<bar>
        \<le> PINKY_EXTENDED
   \<and> (\<exists>fs. calculateFingerStates (Some (handPose 0.9 0.2 0.5 0.5 0.5)) = Some fs
         \<and> isOneFinger fs \<and> \<not> isTwoFingers fs \<and> \<not> isThreeFingers fs \<and> \<not> isFist fs)"
proof -
  let ?h = "handPose 0.9 0.2 0.5 0.5 0.5"
  have a: "21 \<le> length ?h" by (simp add: handPose_def)
  have b: "\<bar>lm_y (?h ! 8) - lm_y (?h ! 9)\<bar> > INDEX_EXTENDED"
    by (simp add: handPose_def landmarkAt_def GESTURE_THRESHOLDS)
  have c: "\<bar>lm_y (?h ! 12) - lm_y (?h ! 9)\<bar> \<le> MIDDLE_EXTENDED"
    by (simp add: handPose_def landmarkAt_def GESTURE_THRESHOLDS)
  have d: "\<bar>lm_y (?h ! 16) - lm_y (?h ! 9)\<bar> \<le> RING_EXTENDED"
    by (simp add: handPose_def landmarkAt_def GESTURE_THRESHOLDS)
  have e: "\<bar>lm_y (?h ! 20) - lm_y (?h ! 9)\<bar> \<le> PINKY_EXTENDED"
    by (simp add: handPose_def landmarkAt_def GESTURE_THRESHOLDS)
  have t: "\<not> \<bar>lm_y (?h ! 4) - lm_y (?h ! 9)\<bar> < THUMB_CURLED"
    by (simp add: handPose_def landmarkAt_def GESTURE_THRESHOLDS)
  show ?thesis
    using C6_one_finger_classification [OF a b c d e] a b c d e t by auto
qed

section \<open>Properties of the particle loop\<close>

text \<open>
  An iteration of the particle loop keeps the lengths of the two arrays, leaves the
  entries of every other particle alone and takes the entries of its own particle
  through \<open>particleStep\<close>; so does the whole loop for each particle, and the tick.
\<close>

lemma updateParticle_length:
  "length (fst (updateParticle pinch tree expl rnd j (pos, vel))) = length pos"
  "length (snd (updateParticle pinch tree expl rnd j (pos, vel))) = length vel"
  by (simp_all add: updateParticle_def Let_def)

lemma updateParticle_other:
  assumes "i \<noteq> j"
  shows "triple (fst (updateParticle pinch tree expl rnd j (pos, vel))) i = triple pos i"
    and "triple (snd (updateParticle pinch tree expl rnd j (pos, vel))) i = triple vel i"
proof -
  have ne: "i * 3 \<noteq> j * 3" "i * 3 \<noteq> j * 3 + 1" "i * 3 \<noteq> j * 3 + 2"
    "i * 3 + 1 \<noteq> j * 3" "i * 3 + 1 \<noteq> j * 3 + 1" "i * 3 + 1 \<noteq> j * 3 + 2"
    "i * 3 + 2 \<noteq> j * 3" "i * 3 + 2 \<noteq> j * 3 + 1" "i * 3 + 2 \<noteq> j * 3 + 2"
    using assms by presburger+
  show "triple (fst (updateParticle pinch tree expl rnd j (pos, vel))) i = triple pos i"
    using ne by (simp add: updateParticle_def Let_def triple_def)
  show "triple (snd (updateParticle pinch tree expl rnd j (pos, vel))) i = triple vel i"
    using ne by (simp add: updateParticle_def Let_def triple_def)
qed

lemma updateParticle_self:
  assumes "j * 3 + 2 < length pos" and "j * 3 + 2 < length vel"
  shows "(triple (fst (updateParticle pinch tree expl rnd j (pos, vel))) j,
          triple (snd (updateParticle pinch tree expl rnd j (pos, vel))) j) =
         particleStep pinch (rnd j) (triple pos j) (triple vel j) (triple tree j) (triple expl j)"
  using assms
  by (simp add: updateParticle_def Let_def triple_def particleStep_def forceInput_def
      vadd_def vsub_def vscale_def brownian_def)

lemma fold_updateParticle:
  assumes "length pos = N * 3" and "length vel = N * 3" and "n \<le> N"
  shows "length (fst (fold (updateParticle pinch tree expl rnd) [0..<n] (pos, vel))) = length pos
       \<and> length (snd (fold (updateParticle pinch tree expl rnd) [0..<n] (pos, vel))) = length vel
       \<and> (\<forall>i. (i < n \<longrightarrow>
              (triple (fst (fold (updateParticle pinch tree expl rnd) [0..<n] (pos, vel))) i,
               triple (snd (fold (updateParticle pinch tree expl rnd) [0..<n] (pos, vel))) i) =
              particleStep pinch (rnd i) (triple pos i) (triple vel i) (triple tree i)
                (triple expl i))
            \<and> (n \<le> i \<longrightarrow>
              triple (fst (fold (updateParticle pinch tree expl rnd) [0..<n] (pos, vel))) i
                = triple pos i
              \<and> triple (snd (fold (updateParticle pinch tree expl rnd) [0..<n] (pos, vel))) i
                = triple vel i))"
  using assms(3)
proof (induction n)
  case 0
  then show ?case by simp
next
  case (Suc n)
  let ?f = "updateParticle pinch tree expl rnd"
  obtain p v where pv: "fold ?f [0..<n] (pos, vel) = (p, v)" by (cases "fold ?f [0..<n] (pos, vel)")
  from Suc have IH: "length p = length pos" "length v = length vel"
    "\<And>i. i < n \<Longrightarrow> (triple p i, triple v i) =
        particleStep pinch (rnd i) (triple pos i) (triple vel i) (triple tree i) (triple expl i)"
    "\<And>i. n \<le> i \<Longrightarrow> triple p i = triple pos i \<and> triple v i = triple vel i"
    by (simp_all add: pv)
  have step: "fold ?f [0..<Suc n] (pos, vel) = ?f n (p, v)" by (simp add: pv)
  have inr: "n * 3 + 2 < length p" "n * 3 + 2 < length v"
    using Suc.prems assms(1,2) IH(1,2) by simp_all
  have self: "(triple (fst (?f n (p, v))) n, triple (snd (?f n (p, v))) n) =
      particleStep pinch (rnd n) (triple pos n) (triple vel n) (triple tree n) (triple expl n)"
    using updateParticle_self [OF inr, of pinch tree expl rnd] IH(4) [of n] by simp
  have other: "\<And>i. i \<noteq> n \<Longrightarrow> triple (fst (?f n (p, v))) i = triple p i
      \<and> triple (snd (?f n (p, v))) i = triple v i"
    by (simp add: updateParticle_other)
  show ?case
  proof (intro conjI allI impI)
    show "length (fst (fold ?f [0..<Suc n] (pos, vel))) = length pos"
      by (simp only: step updateParticle_length IH)
    show "length (snd (fold ?f [0..<Suc n] (pos, vel))) = length vel"
      by (simp only: step updateParticle_length IH)
  next
    fix i assume "i < Suc n"
    show "(triple (fst (fold ?f [0..<Suc n] (pos, vel))) i,
           triple (snd (fold ?f [0..<Suc n] (pos, vel))) i) =
          particleStep pinch (rnd i) (triple pos i) (triple vel i) (triple tree i) (triple expl i)"
    proof (cases "i = n")
      case True
      then show ?thesis using self by (simp only: step)
    next
      case False
      with \<open>i < Suc n\<close> have "i < n" by simp
      then show ?thesis using other [OF False] IH(3) [of i] by (simp only: step)
    qed
  next
    fix i assume "Suc n \<le> i"
    then have ne: "i \<noteq> n" and ge: "n \<le> i" by simp_all
    show "triple (fst (fold ?f [0..<Suc n] (pos, vel))) i = triple pos i"
      using other [OF ne] IH(4) [OF ge] by (simp only: step)
    show "triple (snd (fold ?f [0..<Suc n] (pos, vel))) i = triple vel i"
      using other [OF ne] IH(4) [OF ge] by (simp only: step)
  qed
qed

text \<open>The burst update touches neither the particle arrays nor the pinch state.\<close>

lemma updateFirework_frame:
  "positions (updateFirework i w) = positions w
   \<and> velocities (updateFirework i w) = velocities w
   \<and> targetTree (updateFirework i w) = targetTree w
   \<and> targetExploded (updateFirework i w) = targetExploded w
   \<and> pinchStrength (updateFirework i w) = pinchStrength w
   \<and> isPinching (updateFirework i w) = isPinching w
   \<and> gestureRefs (updateFirework i w) = gestureRefs w
   \<and> fireworks (updateFirework i w) = fireworks w
   \<and> arrays (updateFirework i w) = arrays w
   \<and> timers (updateFirework i w) = timers w
   \<and> length (store (updateFirework i w)) = length (store w)"
  by (simp add: updateFirework_def Let_def split_beta split: option.splits)

lemma fold_updateFirework_frame:
  "positions (fold updateFirework js w) = positions w
   \<and> velocities (fold updateFirework js w) = velocities w
   \<and> targetTree (fold updateFirework js w) = targetTree w
   \<and> targetExploded (fold updateFirework js w) = targetExploded w
   \<and> pinchStrength (fold updateFirework js w) = pinchStrength w
   \<and> isPinching (fold updateFirework js w) = isPinching w
   \<and> gestureRefs (fold updateFirework js w) = gestureRefs w
   \<and> fireworks (fold updateFirework js w) = fireworks w
   \<and> arrays (fold updateFirework js w) = arrays w
   \<and> timers (fold updateFirework js w) = timers w
   \<and> length (store (fold updateFirework js w)) = length (store w)"
  by (induction js arbitrary: w) (simp_all add: updateFirework_frame)

lemma updateFireworks_frame:
  "positions (updateFireworks w) = positions w
   \<and> velocities (updateFireworks w) = velocities w
   \<and> targetTree (updateFireworks w) = targetTree w
   \<and> targetExploded (updateFireworks w) = targetExploded w
   \<and> pinchStrength (updateFireworks w) = pinchStrength w
   \<and> isPinching (updateFireworks w) = isPinching w
   \<and> gestureRefs (updateFireworks w) = gestureRefs w
   \<and> arrays (updateFireworks w) = arrays w
   \<and> timers (updateFireworks w) = timers w
   \<and> length (store (updateFireworks w)) = length (store w)"
  by (simp add: updateFireworks_def Let_def fold_updateFirework_frame)

lemma update_frame:
  "targetTree (update dt rnd w) = targetTree w
   \<and> targetExploded (update dt rnd w) = targetExploded w
   \<and> pinchStrength (update dt rnd w) = pinchStrength w
   \<and> isPinching (update dt rnd w) = isPinching w
   \<and> gestureRefs (update dt rnd w) = gestureRefs w
   \<and> arrays (update dt rnd w) = arrays w
   \<and> timers (update dt rnd w) = timers w
   \<and> length (store (update dt rnd w)) = length (store w)"
  by (simp add: update_def Let_def split_beta updateFireworks_frame)

lemma update_particle:
  assumes "length (positions w) = PARTICLE_COUNT * 3"
    and "length (velocities w) = PARTICLE_COUNT * 3"
  shows "length (positions (update dt rnd w)) = PARTICLE_COUNT * 3
       \<and> length (velocities (update dt rnd w)) = PARTICLE_COUNT * 3
       \<and> (i < PARTICLE_COUNT \<longrightarrow>
            (triple (positions (update dt rnd w)) i, triple (velocities (update dt rnd w)) i) =
            particleStep (pinchStrength w) (rnd i) (triple (positions w) i)
              (triple (velocities w) i) (triple (targetTree w) i) (triple (targetExploded w) i))"
  using fold_updateParticle [OF assms order_refl,
      of "pinchStrength w" "targetTree w" "targetExploded w" rnd] assms
  by (simp add: update_def Let_def split_beta updateFireworks_frame)

text \<open>The Euclidean length: scaling, the triangle inequality, bounds on the force.\<close>

lemma vlength_nonneg: "0 \<le> vlength v"
  by (cases v) (simp add: vlength_def)

lemma vlength_zero: "vlength (0, 0, 0) = 0"
  by (simp add: vlength_def)

lemma vlength_vscale: "vlength (vscale v k) = \<bar>k\<bar> * vlength v"
proof -
  obtain a b c where v: "v = (a, b, c)" by (cases v)
  have "a * k * (a * k) + b * k * (b * k) + c * k * (c * k) = k\<^sup>2 * (a * a + b * b + c * c)"
    by (simp add: power2_eq_square algebra_simps)
  then show ?thesis
    by (simp add: v vlength_def vscale_def real_sqrt_mult)
qed

lemma vlength_triangle: "vlength (vadd u v) \<le> vlength u + vlength v"
proof -
  obtain a b c where u: "u = (a, b, c)" by (cases u)
  obtain d e f where v: "v = (d, e, f)" by (cases v)
  let ?p = "sqrt (a\<^sup>2 + b\<^sup>2)" and ?q = "sqrt (d\<^sup>2 + e\<^sup>2)"
  have 1: "sqrt ((a + d)\<^sup>2 + (b + e)\<^sup>2) \<le> ?p + ?q"
    by (rule real_sqrt_sum_squares_triangle_ineq)
  have "(a + d)\<^sup>2 + (b + e)\<^sup>2 \<le> (?p + ?q)\<^sup>2"
  proof -
    have "0 \<le> sqrt ((a + d)\<^sup>2 + (b + e)\<^sup>2)" by simp
    then have "(sqrt ((a + d)\<^sup>2 + (b + e)\<^sup>2))\<^sup>2 \<le> (?p + ?q)\<^sup>2"
      using 1 by (rule power_mono [rotated])
    then show ?thesis by simp
  qed
  then have "sqrt ((a + d)\<^sup>2 + (b + e)\<^sup>2 + (c + f)\<^sup>2)
      \<le> sqrt ((?p + ?q)\<^sup>2 + (c + f)\<^sup>2)"
    by simp
  also have "\<dots> \<le> sqrt (?p\<^sup>2 + c\<^sup>2) + sqrt (?q\<^sup>2 + f\<^sup>2)"
    by (rule real_sqrt_sum_squares_triangle_ineq)
  also have "\<dots> = sqrt (a\<^sup>2 + b\<^sup>2 + c\<^sup>2) + sqrt (d\<^sup>2 + e\<^sup>2 + f\<^sup>2)"
    by simp
  finally show ?thesis
    by (simp add: u v vlength_def vadd_def power2_eq_square)
qed

lemma vlength_vsub_vadd: "vlength (vsub t (vadd p v)) \<le> vlength (vsub t p) + vlength v"
proof -
  have "vsub t (vadd p v) = vadd (vsub t p) (vscale v (- 1))"
    by (cases t, cases p, cases v) (simp add: vsub_def vadd_def vscale_def)
  then have "vlength (vsub t (vadd p v)) \<le> vlength (vsub t p) + vlength (vscale v (- 1))"
    by (simp add: vlength_triangle)
  then show ?thesis by (simp add: vlength_vscale)
qed

lemma vscale_normalize:
  "vlength d \<noteq> 0 \<Longrightarrow> vscale d (k / vlength d) = vscale (normalize d) k"
  by (cases d) (simp add: vscale_def normalize_def Let_def)

lemma vlength_attraction:
  "0 < vlength d \<Longrightarrow> 0 \<le> k \<Longrightarrow> vlength (vscale d (k / vlength d)) = k"
  by (simp add: vlength_vscale)

lemma vlength_le_sum_abs: "vlength (a, b, c) \<le> \<bar>a\<bar> + \<bar>b\<bar> + \<bar>c\<bar>"
proof -
  define s where "s = \<bar>a\<bar> * \<bar>b\<bar> + \<bar>a\<bar> * \<bar>c\<bar> + \<bar>b\<bar> * \<bar>c\<bar>"
  have eq: "(\<bar>a\<bar> + \<bar>b\<bar> + \<bar>c\<bar>)\<^sup>2 = a * a + b * b + c * c + 2 * s"
    by (simp add: s_def power2_eq_square algebra_simps)
  have "0 \<le> s"
    unfolding s_def by (intro add_nonneg_nonneg mult_nonneg_nonneg) simp_all
  then have "a * a + b * b + c * c \<le> (\<bar>a\<bar> + \<bar>b\<bar> + \<bar>c\<bar>)\<^sup>2"
    unfolding eq by simp
  then show ?thesis
    unfolding vlength_def by (simp add: real_le_lsqrt)
qed

lemma vlength_brownian:
  assumes "randomInRange r"
  shows "vlength (brownian r) \<le> (9/200)"
proof -
  have r: "0 \<le> r 0" "r 0 < 1" "0 \<le> r 1" "r 1 < 1" "0 \<le> r 2" "r 2 < 1"
    using assms by (simp_all add: randomInRange_def)
  have "vlength (brownian r) \<le>
      \<bar>(r 0 - 0.5) * BROWN_MOTION\<bar> + \<bar>(r 1 - 0.5) * BROWN_MOTION\<bar>
        + \<bar>(r 2 - 0.5) * BROWN_MOTION\<bar>"
    unfolding brownian_def by (rule vlength_le_sum_abs)
  also have "\<dots> \<le> (9/200)"
  proof -
    have c: "\<bar>(x - 0.5) * BROWN_MOTION\<bar> \<le> (3/200)" if "0 \<le> x" "x < 1" for x :: real
    proof -
      have "\<bar>x - 0.5\<bar> \<le> 0.5" using that by linarith
      moreover have "\<bar>(x - 0.5) * BROWN_MOTION\<bar> = \<bar>x - 0.5\<bar> * 0.03"
        unfolding BROWN_MOTION_def abs_mult by simp
      ultimately show ?thesis by simp
    qed
    show ?thesis using c [OF r(1,2)] c [OF r(3,4)] c [OF r(5,6)] by simp
  qed
  finally show ?thesis .
qed

lemma forceInput_bound:
  assumes "0 \<le> pinch" and "pinch \<le> 1" and "randomInRange r"
  shows "vlength (forceInput pinch r p t e) \<le> (7/20)"
proof (cases "pinch > 0.01")
  case True
  show ?thesis
  proof (cases "vlength (vsub t p) > 0.01")
    case far: True
    then have "vlength (vscale (vsub t p) (GRAVITY_STRENGTH * pinch / vlength (vsub t p)))
        = GRAVITY_STRENGTH * pinch"
      using assms(1) by (intro vlength_attraction) (simp_all add: GRAVITY_STRENGTH_def)
    then show ?thesis
      using True far assms(2) by (simp add: forceInput_def GRAVITY_STRENGTH_def)
  next
    case False
    then show ?thesis using True by (simp add: forceInput_def vlength_zero)
  qed
next
  case False
  let ?a = "if vlength (vsub e p) > 0.01
            then vscale (vsub e p) (EXPLOSION_STRENGTH / vlength (vsub e p)) else (0, 0, 0)"
  have "vlength ?a \<le> (1/4)"
  proof (cases "vlength (vsub e p) > 0.01")
    case True
    then have "vlength (vscale (vsub e p) (EXPLOSION_STRENGTH / vlength (vsub e p)))
        = EXPLOSION_STRENGTH"
      by (intro vlength_attraction) (simp_all add: EXPLOSION_STRENGTH_def)
    then show ?thesis using True by (simp add: EXPLOSION_STRENGTH_def)
  next
    case False
    then show ?thesis by (simp add: vlength_zero)
  qed
  moreover have "vlength (vadd ?a (brownian r)) \<le> vlength ?a + vlength (brownian r)"
    by (rule vlength_triangle)
  moreover note vlength_brownian [OF assms(3)]
  ultimately have "vlength (vadd ?a (brownian r)) \<le> (7/20)" by linarith
  then show ?thesis using False by (simp add: forceInput_def)
qed

lemma particleStep_velocity:
  "snd (particleStep pinch r p v t e) = vscale (vadd v (forceInput pinch r p t e)) DAMPING"
  by (simp add: particleStep_def Let_def)


lemma particleStep_speed:
  assumes "vlength (forceInput pinch r p t e) \<le> B"
  shows "vlength (snd (particleStep pinch r p v t e)) \<le> (9/10) * (vlength v + B)"
proof -
  have "vlength (vadd v (forceInput pinch r p t e)) \<le> vlength v + B"
    using vlength_triangle [of v "forceInput pinch r p t e"] assms by linarith
  then show ?thesis
    by (simp add: particleStep_velocity vlength_vscale DAMPING_def)
qed

text \<open>
  Hand frames and timers leave the particle arrays alone and keep the pinch strength in
  \<open>[0, 1]\<close>; an animation frame keeps the speed below any bound from 3.15 upwards.
\<close>

lemma createFireworks_frame:
  "positions (createFireworks a b c w) = positions w
   \<and> velocities (createFireworks a b c w) = velocities w
   \<and> targetTree (createFireworks a b c w) = targetTree w
   \<and> targetExploded (createFireworks a b c w) = targetExploded w
   \<and> pinchStrength (createFireworks a b c w) = pinchStrength w
   \<and> store (createFireworks a b c w) = store w
   \<and> sceneChildren (createFireworks a b c w) = sceneChildren w
   \<and> fireworks (createFireworks a b c w) = fireworks w
   \<and> arrays (createFireworks a b c w) = arrays w @ [[]]"
  by (simp add: createFireworks_def createFireworkParticles_def Let_def layers_def)

lemma fireworkTimeout_throws: "fireworkTimeout t env w = Inl TypeError"
  by (simp add: fireworkTimeout_def THREE_Float32Array_def Let_def)

lemma step_TimerFires:
  "step (TimerFires k env) w =
     (if k < length (timers w)
      then w\<lparr> timers := take k (timers w) @ drop (Suc k) (timers w) \<rparr> else w)"
  by (simp add: step_def fireworkTimeout_throws Let_def)

lemma invokeCallback_frame:
  "positions (invokeCallback cb w) = positions w
   \<and> velocities (invokeCallback cb w) = velocities w
   \<and> targetTree (invokeCallback cb w) = targetTree w
   \<and> targetExploded (invokeCallback cb w) = targetExploded w
   \<and> pinchStrength (invokeCallback cb w) =
       (case cb of FistGesture s a b \<Rightarrow> s | NoGesture \<Rightarrow> 0 | _ \<Rightarrow> pinchStrength w)"
  by (cases cb) (simp_all add: invokeCallback_def onOneFingerGesture_def onTwoFingersGesture_def
      onThreeFingersGesture_def onFistGesture_def onNoGesture_def updatePinchState_def
      createFireworks_frame Let_def)

lemma fold_invokeCallback_frame:
  assumes "list_all strengthInRange cbs" and "0 \<le> pinchStrength w" and "pinchStrength w \<le> 1"
  shows "positions (fold invokeCallback cbs w) = positions w
   \<and> velocities (fold invokeCallback cbs w) = velocities w
   \<and> targetTree (fold invokeCallback cbs w) = targetTree w
   \<and> targetExploded (fold invokeCallback cbs w) = targetExploded w
   \<and> 0 \<le> pinchStrength (fold invokeCallback cbs w)
   \<and> pinchStrength (fold invokeCallback cbs w) \<le> 1"
  using assms
proof (induction cbs arbitrary: w)
  case Nil
  then show ?case by simp
next
  case (Cons cb cbs)
  have "0 \<le> pinchStrength (invokeCallback cb w) \<and> pinchStrength (invokeCallback cb w) \<le> 1"
    using Cons.prems by (cases cb) (simp_all add: invokeCallback_frame strengthInRange_def)
  with Cons show ?case by (simp add: invokeCallback_frame)
qed

lemma onResults_strengthInRange: "list_all strengthInRange (snd (onResults r f))"
proof (cases "isMounted r")
  case False
  then show ?thesis by (simp add: onResults_def)
next
  case True
  show ?thesis
  proof (cases "classify f")
    case None
    then show ?thesis
      using True
      by (auto simp: onResults_def classify_def strengthInRange_def
          split: option.splits list.splits)
  next
    case (Some fs)
    have ev: "onResults r f = handleGestures r fs"
      using True Some by (rule onResults_classified)
    have "isFist fs \<Longrightarrow> 3 / 4 \<le> real (fingersCurled fs) / 4 \<and> real (fingersCurled fs) / 4 \<le> 1"
      using classify_fist_count [OF Some] by simp
    then show ?thesis
      by (auto simp: ev handleGestures_events strengthInRange_def)
  qed
qed

lemma step_AnimationFrame:
  assumes "wellFormed w"
  shows "wellFormed (step (AnimationFrame rnd) w)
       \<and> pinchStrength (step (AnimationFrame rnd) w) = pinchStrength w
       \<and> targetTree (step (AnimationFrame rnd) w) = targetTree w
       \<and> targetExploded (step (AnimationFrame rnd) w) = targetExploded w
       \<and> (i < PARTICLE_COUNT \<longrightarrow>
            (triple (positions (step (AnimationFrame rnd) w)) i,
             triple (velocities (step (AnimationFrame rnd) w)) i) =
            particleStep (pinchStrength w) (rnd i) (triple (positions w) i)
              (triple (velocities w) i) (triple (targetTree w) i) (triple (targetExploded w) i))"
  using assms update_particle [of w "0.016" rnd i] update_frame [of "0.016" rnd w]
  by (simp add: step_def animate_def wellFormed_def)

lemma step_other:
  assumes "pinchInRange w" and "\<forall>rnd. ev \<noteq> AnimationFrame rnd"
  shows "positions (step ev w) = positions w
       \<and> velocities (step ev w) = velocities w
       \<and> targetTree (step ev w) = targetTree w
       \<and> targetExploded (step ev w) = targetExploded w
       \<and> pinchInRange (step ev w)"
proof (cases ev)
  case (AnimationFrame rnd)
  with assms(2) show ?thesis by simp
next
  case (HandsResults res)
  obtain r cbs where rc: "onResults (gestureRefs w) res = (r, cbs)"
    by (cases "onResults (gestureRefs w) res")
  have "list_all strengthInRange cbs"
    using onResults_strengthInRange [of "gestureRefs w" res] by (simp add: rc)
  then show ?thesis
    using fold_invokeCallback_frame [of cbs "w\<lparr>gestureRefs := r\<rparr>"] assms(1)
    by (simp add: HandsResults step_def rc pinchInRange_def)
next
  case (TimerFires k env)
  then show ?thesis
    using assms(1) by (simp add: step_TimerFires pinchInRange_def)
qed

lemma step_invariant:
  assumes "wellFormed w" and "pinchInRange w"
  shows "wellFormed (step ev w) \<and> pinchInRange (step ev w)"
proof (cases "\<exists>rnd. ev = AnimationFrame rnd")
  case True
  then obtain rnd where "ev = AnimationFrame rnd" by blast
  then show ?thesis
    using step_AnimationFrame [OF assms(1), of rnd] assms(2) by (simp add: pinchInRange_def)
next
  case False
  then show ?thesis
    using step_other [of w ev] assms by (simp add: wellFormed_def)
qed

lemma step_speed:
  assumes "wellFormed w" and "pinchInRange w" and "randomEvent ev" and "i < PARTICLE_COUNT"
    and "speed w i \<le> M" and "63 / 20 \<le> M"
  shows "speed (step ev w) i \<le> M"
proof (cases "\<exists>rnd. ev = AnimationFrame rnd")
  case True
  then obtain rnd where ev: "ev = AnimationFrame rnd" by blast
  have rr: "randomInRange (rnd i)" using assms(3) by (simp add: ev randomEvent_def)
  have fb: "vlength (forceInput (pinchStrength w) (rnd i) (triple (positions w) i)
      (triple (targetTree w) i) (triple (targetExploded w) i)) \<le> 7 / 20"
    using assms(2) rr by (intro forceInput_bound) (simp_all add: pinchInRange_def)
  have "speed (step ev w) i = vlength (snd (particleStep (pinchStrength w) (rnd i)
      (triple (positions w) i) (triple (velocities w) i) (triple (targetTree w) i)
      (triple (targetExploded w) i)))"
  proof -
    have "(triple (positions (step ev w)) i, triple (velocities (step ev w)) i) =
        particleStep (pinchStrength w) (rnd i) (triple (positions w) i)
          (triple (velocities w) i) (triple (targetTree w) i) (triple (targetExploded w) i)"
      using step_AnimationFrame [OF assms(1), of rnd i] assms(4) by (simp add: ev)
    from arg_cong [OF this, of snd] show ?thesis by (simp add: speed_def)
  qed
  also have "\<dots> \<le> 9 / 10 * (speed w i + 7 / 20)"
    unfolding speed_def using fb by (rule particleStep_speed)
  also have "\<dots> \<le> M" using assms(5,6) by simp
  finally show ?thesis .
next
  case False
  then show ?thesis
    using step_other [of w ev] assms(2,5) by (simp add: speed_def)
qed

lemma run_speed:
  assumes "wellFormed w" and "pinchInRange w" and "list_all randomEvent evs"
    and "i < PARTICLE_COUNT" and "speed w i \<le> M" and "63 / 20 \<le> M"
  shows "speed (run evs w) i \<le> M"
  using assms(1,2,3,5)
proof (induction evs arbitrary: w)
  case Nil
  then show ?case by (simp add: run_def)
next
  case (Cons ev evs)
  have inv: "wellFormed (step ev w)" "pinchInRange (step ev w)"
    using step_invariant [OF Cons.prems(1,2)] by simp_all
  have sp: "speed (step ev w) i \<le> M"
    using Cons.prems assms(4,6) by (intro step_speed) simp_all
  have "speed (run evs (step ev w)) i \<le> M"
    using inv sp Cons.prems(3) by (intro Cons.IH) simp_all
  then show ?case by (simp add: run_def)
qed

section \<open>Properties of the physics integrator\<close>

text \<open>A particle oscillating about its target with period 2.\<close>

lemma orbitWorld_simps:
  "wellFormed orbitWorld" "pinchStrength orbitWorld = 1"
  "triple (positions orbitWorld) 0 = (63 / 760, 0, 0)"
  "triple (velocities orbitWorld) 0 = (63 / 380, 0, 0)"
  "triple (targetTree orbitWorld) 0 = (0, 0, 0)"
  "triple (positions orbitWorld) (Suc 0) = (0, 0, 0)"
  "triple (velocities orbitWorld) (Suc 0) = (0, 0, 0)"
  "triple (targetTree orbitWorld) (Suc 0) = (0, 0, 0)"
  by (simp_all add: orbitWorld_def wellFormed_def triple_def PARTICLE_COUNT_def)

lemma vlength_axis: "vlength (a, 0, 0) = \<bar>a\<bar>"
  by (simp add: vlength_def)











text \<open>Within 0.01 of its target a pinched particle feels no force.\<close>

lemma forceInput_dead_zone:
  assumes "1 / 100 < pinch" and "vlength (vsub t p) \<le> 1 / 100"
  shows "forceInput pinch r p t e = (0, 0, 0)"
  using assms by (simp add: forceInput_def)

lemma vadd_zero: "vadd v (0, 0, 0) = v"
  by (cases v) (simp add: vadd_def)

lemma orbitWorld_rest:
  "targetDistance orbitWorld (Suc 0) = 0" "speed orbitWorld (Suc 0) = 0" "speed orbitWorld 0 = 63 / 380"
  "targetDistance orbitWorld 0 = 63 / 760"
  by (simp_all add: targetDistance_def speed_def orbitWorld_simps vsub_def vlength_axis)




















text \<open>
  In every state reached from the initial one the flag \<open>isPinching\<close> is set exactly when
  \<open>pinchStrength > 0.01\<close>, the test of the particle loop: "when pinching" can be read
  either way.
\<close>

lemma invokeCallback_pinchConsistent:
  assumes "pinchConsistent w" and "strengthInRange cb"
  shows "pinchConsistent (invokeCallback cb w)"
  using assms
  by (cases cb)
    (simp_all add: invokeCallback_def onOneFingerGesture_def onTwoFingersGesture_def
      onThreeFingersGesture_def onFistGesture_def onNoGesture_def updatePinchState_def
      createFireworks_def createFireworkParticles_def layers_def Let_def
      pinchConsistent_def pinchInRange_def strengthInRange_def)

lemma fold_invokeCallback_pinchConsistent:
  "pinchConsistent w \<Longrightarrow> list_all strengthInRange cbs \<Longrightarrow>
   pinchConsistent (fold invokeCallback cbs w)"
  by (induction cbs arbitrary: w) (simp_all add: invokeCallback_pinchConsistent)

lemma step_pinchConsistent:
  assumes "pinchConsistent w"
  shows "pinchConsistent (step ev w)"
proof (cases ev)
  case (AnimationFrame rnd)
  then show ?thesis
    using assms update_frame [of "0.016" rnd w]
    by (simp add: step_def animate_def pinchConsistent_def pinchInRange_def)
next
  case (HandsResults res)
  obtain r cbs where rc: "onResults (gestureRefs w) res = (r, cbs)"
    by (cases "onResults (gestureRefs w) res")
  have "list_all strengthInRange cbs"
    using onResults_strengthInRange [of "gestureRefs w" res] by (simp add: rc)
  moreover have "pinchConsistent (w\<lparr>gestureRefs := r\<rparr>)"
    using assms by (simp add: pinchConsistent_def pinchInRange_def)
  ultimately show ?thesis
    by (simp add: HandsResults step_def rc fold_invokeCallback_pinchConsistent)
next
  case (TimerFires k env)
  then show ?thesis
    using assms
    by (simp add: step_TimerFires pinchConsistent_def pinchInRange_def)
qed

lemma run_pinchConsistent:
  "pinchConsistent (run evs (initialWorld rnd))"
proof -
  have "pinchConsistent w \<Longrightarrow> pinchConsistent (run evs w)" for w
  proof (induction evs arbitrary: w)
    case Nil
    then show ?case by (simp add: run_def)
  next
    case (Cons ev evs)
    then show ?case using step_pinchConsistent [of w ev] by (simp add: run_def)
  qed
  moreover have "pinchConsistent (initialWorld rnd)"
    by (simp add: pinchConsistent_def pinchInRange_def initialWorld_def)
  ultimately show ?thesis .
qed

text \<open>
  Claim C4. On a tick, for every particle \<open>i\<close>: the target is \<open>Tree[i]\<close> if
  \<open>pinchStrength > 0.01\<close> and \<open>Exploded[i]\<close> otherwise; when the distance to it
  exceeds 0.01, the velocity after the tick is the damped sum of the old velocity, the
  displacement scaled by \<open>forceMagnitude / dist\<close> and the jitter (none when pinching),
  where \<open>forceMagnitude\<close> is \<open>GRAVITY_STRENGTH * pinchStrength\<close> when pinching and
  \<open>EXPLOSION_STRENGTH\<close> otherwise; that increment equals
  \<open>normalize(d) * forceMagnitude\<close> and has length \<open>forceMagnitude\<close>. "Pinching" is
  the test \<open>pinchStrength > 0.01\<close> of the loop, which agrees with the flag \<open>isPinching\<close>
  in every reachable state (lemma \<open>run_pinchConsistent\<close>).
\<close>

theorem C4_target_and_force:
  assumes "wellFormed w" and "i < PARTICLE_COUNT"
    and "target = (if pinchStrength w > 0.01 then triple (targetTree w) i
                   else triple (targetExploded w) i)"
    and "d = vsub target (triple (positions w) i)"
    and "forceMagnitude = (if pinchStrength w > 0.01 then GRAVITY_STRENGTH * pinchStrength w
                           else EXPLOSION_STRENGTH)"
    and "jitter = (if pinchStrength w > 0.01 then (0, 0, 0) else brownian (rnd i))"
    and "vlength d > 0.01"
  shows "triple (velocities (update timeDelta rnd w)) i =
           vscale (vadd (vadd (triple (velocities w) i) (vscale d (forceMagnitude / vlength d)))
                     jitter) DAMPING
         \<and> vscale d (forceMagnitude / vlength d) = vscale (normalize d) forceMagnitude
         \<and> vlength (vscale d (forceMagnitude / vlength d)) = forceMagnitude"
proof -
  have wf: "length (positions w) = PARTICLE_COUNT * 3" "length (velocities w) = PARTICLE_COUNT * 3"
    using assms(1) by (simp_all add: wellFormed_def)
  have st: "(triple (positions (update timeDelta rnd w)) i,
             triple (velocities (update timeDelta rnd w)) i) =
      particleStep (pinchStrength w) (rnd i) (triple (positions w) i) (triple (velocities w) i)
        (triple (targetTree w) i) (triple (targetExploded w) i)"
    using update_particle [OF wf, of timeDelta rnd i] assms(2) by simp
  have pos: "0 < vlength d" using assms(7) by simp
  have fm: "0 \<le> forceMagnitude"
    by (simp add: assms(5) GRAVITY_STRENGTH_def EXPLOSION_STRENGTH_def)
  have fi: "forceInput (pinchStrength w) (rnd i) (triple (positions w) i)
      (triple (targetTree w) i) (triple (targetExploded w) i) =
      vadd (vscale d (forceMagnitude / vlength d)) jitter"
  proof (cases "pinchStrength w > 0.01")
    case True
    then have "d = vsub (triple (targetTree w) i) (triple (positions w) i)"
      by (simp add: assms(3,4))
    with assms(7) have "vlength (vsub (triple (targetTree w) i) (triple (positions w) i)) > 0.01"
      by simp
    then show ?thesis
      using True
      by (simp only: forceInput_def assms(3,4,5,6) if_True vadd_zero)
  next
    case False
    then have "d = vsub (triple (targetExploded w) i) (triple (positions w) i)"
      by (simp add: assms(3,4))
    with assms(7)
    have "vlength (vsub (triple (targetExploded w) i) (triple (positions w) i)) > 0.01"
      by simp
    then show ?thesis
      using False
      by (simp only: forceInput_def assms(3,4,5,6) if_True if_False)
  qed
  have assoc: "vadd u (vadd v x) = vadd (vadd u v) x" for u v x
    by (cases u, cases v, cases x) (simp add: vadd_def)
  have "triple (velocities (update timeDelta rnd w)) i =
      vscale (vadd (vadd (triple (velocities w) i) (vscale d (forceMagnitude / vlength d)))
        jitter) DAMPING"
    using arg_cong [OF st, of snd] by (simp add: particleStep_velocity fi assoc)
  moreover have "vscale d (forceMagnitude / vlength d) = vscale (normalize d) forceMagnitude"
    using pos by (intro vscale_normalize) simp
  moreover have "vlength (vscale d (forceMagnitude / vlength d)) = forceMagnitude"
    using pos fm by (rule vlength_attraction)
  ultimately show ?thesis by simp
qed

text \<open>Particle 0 of the oscillating state, at distance 63/760 from its tree target.\<close>

theorem C4_target_and_force_witness:
  "wellFormed orbitWorld \<and> 0 < PARTICLE_COUNT \<and> pinchStrength orbitWorld > 0.01
   \<and> vlength (vsub (triple (targetTree orbitWorld) 0) (triple (positions orbitWorld) 0)) > 0.01
   \<and> triple (velocities (update 0.016 noJitter orbitWorld)) 0 =
       vscale
         (vadd
           (vadd (triple (velocities orbitWorld) 0)
             (vscale (vsub (triple (targetTree orbitWorld) 0) (triple (positions orbitWorld) 0))
               (GRAVITY_STRENGTH * pinchStrength orbitWorld /
                vlength (vsub (triple (targetTree orbitWorld) 0)
                  (triple (positions orbitWorld) 0)))))
           (0, 0, 0)) DAMPING
   \<and> vlength
        (vscale (vsub (triple (targetTree orbitWorld) 0) (triple (positions orbitWorld) 0))
          (GRAVITY_STRENGTH * pinchStrength orbitWorld /
           vlength (vsub (triple (targetTree orbitWorld) 0) (triple (positions orbitWorld) 0))))
       = GRAVITY_STRENGTH * pinchStrength orbitWorld"
proof -
  have i: "0 < PARTICLE_COUNT" by (simp add: PARTICLE_COUNT_def)
  have p: "pinchStrength orbitWorld > 0.01" by (simp add: orbitWorld_simps)
  have far: "vlength (vsub (triple (targetTree orbitWorld) 0) (triple (positions orbitWorld) 0))
      > 0.01"
    by (simp add: orbitWorld_simps vsub_def vlength_axis)
  have far': "vlength (vsub (if pinchStrength orbitWorld > 0.01
      then triple (targetTree orbitWorld) 0 else triple (targetExploded orbitWorld) 0)
      (triple (positions orbitWorld) 0)) > 0.01"
    using far p by (simp only: if_True)
  note t = C4_target_and_force [where rnd = noJitter and timeDelta = "0.016",
      OF orbitWorld_simps(1) i refl refl refl refl far']
  show ?thesis
    using t [THEN conjunct1] t [THEN conjunct2, THEN conjunct2] i p far orbitWorld_simps(1)
    by (simp only: if_True simp_thms)
qed

text \<open>
  Claim C7. For every particle on every tick the velocity after the tick is the old
  velocity plus the force input of the tick, each component multiplied by
  \<open>DAMPING = 0.90 < 1\<close>, in every branch. Consequently, over every sequence of animation
  frames, hand frames and timers in which the random values are in \<open>[0, 1)\<close> and the
  pinch strength starts in \<open>[0, 1]\<close>, the speed never exceeds the larger of the initial
  speed and 3.15; and on a tick without force input (pinching, within 0.01 of the
  target) the speed is \<open>DAMPING\<close> times the old one, hence not larger.
\<close>

theorem C7_velocity_damping:
  assumes "wellFormed w" and "i < PARTICLE_COUNT"
  shows "DAMPING = 0.90 \<and> DAMPING < 1
         \<and> triple (velocities (update timeDelta rnd w)) i =
             vscale (vadd (triple (velocities w) i)
                       (forceInput (pinchStrength w) (rnd i) (triple (positions w) i)
                          (triple (targetTree w) i) (triple (targetExploded w) i))) DAMPING
         \<and> (pinchInRange w \<and> list_all randomEvent evs \<longrightarrow>
               speed (run evs w) i \<le> max (speed w i) 3.15)
         \<and> (pinchStrength w > 0.01 \<and> targetDistance w i \<le> 0.01 \<longrightarrow>
               speed (update timeDelta rnd w) i = DAMPING * speed w i
               \<and> speed (update timeDelta rnd w) i \<le> speed w i)"
proof -
  have wf: "length (positions w) = PARTICLE_COUNT * 3" "length (velocities w) = PARTICLE_COUNT * 3"
    using assms(1) by (simp_all add: wellFormed_def)
  have st: "(triple (positions (update timeDelta rnd w)) i,
             triple (velocities (update timeDelta rnd w)) i) =
      particleStep (pinchStrength w) (rnd i) (triple (positions w) i) (triple (velocities w) i)
        (triple (targetTree w) i) (triple (targetExploded w) i)"
    using update_particle [OF wf, of timeDelta rnd i] assms(2) by simp
  have v: "triple (velocities (update timeDelta rnd w)) i =
      vscale (vadd (triple (velocities w) i)
        (forceInput (pinchStrength w) (rnd i) (triple (positions w) i)
           (triple (targetTree w) i) (triple (targetExploded w) i))) DAMPING"
    using arg_cong [OF st, of snd] by (simp add: particleStep_velocity)
  have bounded: "speed (run evs w) i \<le> max (speed w i) 3.15"
    if "pinchInRange w" "list_all randomEvent evs"
  proof -
    have "speed (run evs w) i \<le> max (speed w i) (63 / 20)"
      using assms(1) that assms(2) by (rule run_speed) simp_all
    then show ?thesis by simp
  qed
  have quiet: "speed (update timeDelta rnd w) i = DAMPING * speed w i
      \<and> speed (update timeDelta rnd w) i \<le> speed w i"
    if "pinchStrength w > 0.01" "targetDistance w i \<le> 0.01"
  proof -
    have "forceInput (pinchStrength w) (rnd i) (triple (positions w) i)
        (triple (targetTree w) i) (triple (targetExploded w) i) = (0, 0, 0)"
      using that by (intro forceInput_dead_zone) (simp_all add: targetDistance_def)
    then have eq: "speed (update timeDelta rnd w) i = DAMPING * speed w i"
      by (simp add: speed_def v vadd_zero vlength_vscale DAMPING_def)
    have "0 \<le> speed w i" by (simp add: speed_def vlength_nonneg)
    then have "DAMPING * speed w i \<le> speed w i" by (simp add: DAMPING_def)
    with eq show ?thesis by simp
  qed
  show ?thesis using v bounded quiet by (simp add: DAMPING_def)
qed

text \<open>
  The oscillating state, over three ticks with a frame without hands and a fist frame in
  between; particle 1 rests on its target.
\<close>

theorem C7_velocity_damping_witness:
  "wellFormed orbitWorld \<and> 0 < PARTICLE_COUNT \<and> Suc 0 < PARTICLE_COUNT
   \<and> pinchInRange orbitWorld
   \<and> list_all randomEvent
        [AnimationFrame noJitter, HandsResults noHandFrame, AnimationFrame noJitter,
         HandsResults fistFrame, AnimationFrame noJitter]
   \<and> speed (run [AnimationFrame noJitter, HandsResults noHandFrame, AnimationFrame noJitter,
                  HandsResults fistFrame, AnimationFrame noJitter] orbitWorld) 0 \<le> 3.15
   \<and> pinchStrength orbitWorld > 0.01 \<and> targetDistance orbitWorld (Suc 0) \<le> 0.01
   \<and> speed (update 0.016 noJitter orbitWorld) (Suc 0) = DAMPING * speed orbitWorld (Suc 0)"
proof -
  let ?evs = "[AnimationFrame noJitter, HandsResults noHandFrame, AnimationFrame noJitter,
               HandsResults fistFrame, AnimationFrame noJitter]"
  have i: "0 < PARTICLE_COUNT" "Suc 0 < PARTICLE_COUNT" by (simp_all add: PARTICLE_COUNT_def)
  have p: "pinchInRange orbitWorld" by (simp add: pinchInRange_def orbitWorld_simps)
  have e: "list_all randomEvent ?evs"
    by (simp add: randomEvent_def randomInRange_def noJitter_def)
  have q: "pinchStrength orbitWorld > 0.01" "targetDistance orbitWorld (Suc 0) \<le> 0.01"
    by (simp_all add: orbitWorld_simps orbitWorld_rest)
  have s0: "max (speed orbitWorld 0) 3.15 = 3.15" by (simp add: orbitWorld_rest)
  show ?thesis
    using C7_velocity_damping [OF orbitWorld_simps(1) i(1), of "0.016" noJitter ?evs]
      C7_velocity_damping [OF orbitWorld_simps(1) i(2), of "0.016" noJitter ?evs]
      i p e q s0 orbitWorld_simps(1)
    by simp
qed

section \<open>Properties of the exploded generator\<close>

text \<open>The loop fills the array three entries at a time, from the left.\<close>

lemma explodedParticle_fill:
  assumes "length xs = n * 3"
  shows "explodedParticle n (xs @ 0 # 0 # 0 # ys) =
           xs @ [(noise3D (real n) 0 0 - 0.5) * 60, (noise3D 0 (real n) 0 - 0.5) * 60,
                 (noise3D 0 0 (real n) - 0.5) * 60] @ ys"
  using assms by (simp add: explodedParticle_def Let_def list_update_append)

lemma replicate_three: "replicate (Suc k * 3) (0::real) = 0 # 0 # 0 # replicate (k * 3) 0"
proof -
  have "Suc k * 3 = Suc (Suc (Suc (k * 3)))" by simp
  then show ?thesis by (simp only: replicate_Suc)
qed

lemma fold_explodedParticle:
  "n \<le> N \<Longrightarrow>
   fold explodedParticle [0..<n] (replicate (N * 3) 0) =
     concat (map (\<lambda>i. [(noise3D (real i) 0 0 - 0.5) * 60, (noise3D 0 (real i) 0 - 0.5) * 60,
                         (noise3D 0 0 (real i) - 0.5) * 60]) [0..<n])
     @ replicate ((N - n) * 3) 0"
proof (induction n)
  case 0
  then show ?case by simp
next
  case (Suc n)
  let ?g = "\<lambda>i. [(noise3D (real i) 0 0 - 0.5) * 60, (noise3D 0 (real i) 0 - 0.5) * 60,
                   (noise3D 0 0 (real i) - 0.5) * 60]"
  let ?xs = "concat (map ?g [0..<n])"
  have len: "length ?xs = n * 3"
    by (induction n) simp_all
  from Suc.prems obtain k where k: "N - n = Suc k" "N - Suc n = k"
    by (cases "N - n") simp_all
  have IH: "fold explodedParticle [0..<n] (replicate (N * 3) 0) = ?xs @ replicate (Suc k * 3) 0"
    using Suc by (simp add: k)
  have "fold explodedParticle [0..<Suc n] (replicate (N * 3) 0) =
      explodedParticle n (?xs @ 0 # 0 # 0 # replicate (k * 3) 0)"
    by (simp only: upt_Suc_append [OF le0] fold_append fold_simps comp_apply IH replicate_three id_apply)
  also have "\<dots> = ?xs @ ?g n @ replicate (k * 3) 0"
    using len by (rule explodedParticle_fill)
  finally show ?case by (simp add: k)
qed

text \<open>
  Claim C9. \<open>calculateExplodedParticlePositions\<close> draws no random value: for every
  particle count \<open>N\<close> its output is the array of length \<open>3N\<close> whose entries for
  particle \<open>i\<close> are the three hashes \<open>noise3D(i,0,0)\<close>, \<open>noise3D(0,i,0)\<close>,
  \<open>noise3D(0,0,i)\<close> mapped to \<open>(-30, 30)\<close>, a function of \<open>N\<close> and \<open>i\<close> alone; so the
  two calls the constructor makes, before and after the random draws of the tree
  generator, give element-wise identical arrays whatever the random source returns.
\<close>

theorem C9_exploded_positions_deterministic:
  "calculateExplodedParticlePositions N =
     concat (map (\<lambda>i. [(noise3D (real i) 0 0 - 0.5) * 60, (noise3D 0 (real i) 0 - 0.5) * 60,
                         (noise3D 0 0 (real i) - 0.5) * 60]) [0..<N])
   \<and> length (calculateExplodedParticlePositions N) = N * 3
   \<and> positions (initialWorld rnd) = targetExploded (initialWorld rnd')"
proof -
  let ?g = "\<lambda>i. [(noise3D (real i) 0 0 - 0.5) * 60, (noise3D 0 (real i) 0 - 0.5) * 60,
                   (noise3D 0 0 (real i) - 0.5) * 60]"
  have cf: "calculateExplodedParticlePositions N = concat (map ?g [0..<N])"
    using fold_explodedParticle [of N N] by (simp add: calculateExplodedParticlePositions_def)
  have "length (concat (map ?g [0..<n])) = n * 3" for n
    by (induction n) simp_all
  then have "length (calculateExplodedParticlePositions N) = N * 3"
    by (simp only: cf)
  then show ?thesis using cf by (simp add: initialWorld_def)
qed

section \<open>Properties of the firework bursts\<close>


lemma tickBurst_inactive: "\<not> active fw \<Longrightarrow> tickBurst fw = fw"
  by (simp add: tickBurst_def)



























end
